theory Spec2Isabelle
  imports Complex_Main "HOL-Library.Sublist"
begin

section \<open>Python values\<close>

text \<open>
  The values that cross the functions of \<^verbatim>\<open>agent.py\<close> are Python strings, \<^verbatim>\<open>None\<close> and
  whatever \<^verbatim>\<open>response.json()\<close> builds from a JSON body. A dictionary is an association
  list in insertion order, with distinct keys, read with \<^const>\<open>map_of\<close>. JSON numbers with a
  fractional part are left out, and strings are ASCII text.
\<close>

datatype pyval =
    PyNone
  | PyBool bool
  | PyInt int
  | PyStr string
  | PyList "pyval list"
  | PyDict "(string \<times> pyval) list"

text \<open>Truth value testing (\<^verbatim>\<open>if x:\<close>, \<^verbatim>\<open>not x\<close>).\<close>

fun truthy :: "pyval \<Rightarrow> bool" where
  "truthy PyNone = False"
| "truthy (PyBool b) = b"
| "truthy (PyInt n) = (n \<noteq> 0)"
| "truthy (PyStr s) = (s \<noteq> [])"
| "truthy (PyList xs) = (xs \<noteq> [])"
| "truthy (PyDict kvs) = (kvs \<noteq> [])"

fun type_name :: "pyval \<Rightarrow> string" where
  "type_name PyNone = ''NoneType''"
| "type_name (PyBool b) = ''bool''"
| "type_name (PyInt n) = ''int''"
| "type_name (PyStr s) = ''str''"
| "type_name (PyList xs) = ''list''"
| "type_name (PyDict kvs) = ''dict''"

subsection \<open>\<^verbatim>\<open>repr\<close> and \<^verbatim>\<open>str\<close>\<close>

definition digit_char :: "nat \<Rightarrow> char" where
  "digit_char d = char_of (of_char (CHR ''0'') + d)"

fun show_nat :: "nat \<Rightarrow> string" where
  "show_nat n = (if n < 10 then [digit_char n] else show_nat (n div 10) @ [digit_char (n mod 10)])"

definition show_int :: "int \<Rightarrow> string" where
  "show_int i = (if i < 0 then CHR ''-'' # show_nat (nat (- i)) else show_nat (nat i))"

definition hex_char :: "nat \<Rightarrow> char" where
  "hex_char d = (if d < 10 then digit_char d else char_of (of_char (CHR ''a'') + (d - 10)))"

abbreviation squote :: char where "squote \<equiv> CHR 0x27"
abbreviation dquote :: char where "dquote \<equiv> CHR 0x22"
abbreviation backslash :: char where "backslash \<equiv> CHR 0x5C"
abbreviation newline :: char where "newline \<equiv> CHR 0x0A"

text \<open>
  \<^verbatim>\<open>repr\<close> of a string: single quotes, unless the text holds a single quote and no double
  quote; the quote in use and the backslash are escaped, control characters are written
  \<^verbatim>\<open>\n\<close>, \<^verbatim>\<open>\r\<close>, \<^verbatim>\<open>\t\<close> or \<^verbatim>\<open>\xNN\<close>.
\<close>

definition escape_char :: "char \<Rightarrow> char \<Rightarrow> string" where
  "escape_char q c =
     (if c = q \<or> c = backslash then [backslash, c]
      else if c = CHR 0x0A then [backslash, CHR ''n'']
      else if c = CHR 0x0D then [backslash, CHR ''r'']
      else if c = CHR 0x09 then [backslash, CHR ''t'']
      else if (of_char c :: nat) < 32 \<or> (of_char c :: nat) = 127
        then [backslash, CHR ''x'', hex_char (of_char c div 16), hex_char (of_char c mod 16)]
      else [c])"

definition repr_str :: "string \<Rightarrow> string" where
  "repr_str s =
     (let q = (if squote \<in> set s \<and> dquote \<notin> set s then dquote else squote)
      in q # concat (map (escape_char q) s) @ [q])"

text \<open>\<^verbatim>\<open>sep.join(parts)\<close>.\<close>

fun join :: "string \<Rightarrow> string list \<Rightarrow> string" where
  "join sep [] = []"
| "join sep [x] = x"
| "join sep (x # y # ys) = x @ sep @ join sep (y # ys)"

fun py_repr :: "pyval \<Rightarrow> string" where
  "py_repr PyNone = ''None''"
| "py_repr (PyBool b) = (if b then ''True'' else ''False'')"
| "py_repr (PyInt n) = show_int n"
| "py_repr (PyStr s) = repr_str s"
| "py_repr (PyList xs) = ''['' @ join '', '' (map py_repr xs) @ '']''"
| "py_repr (PyDict kvs) =
     ''{'' @ join '', '' (map (\<lambda>kv. repr_str (fst kv) @ '': '' @ py_repr (snd kv)) kvs) @ ''}''"

text \<open>\<^verbatim>\<open>str(x)\<close>, which is also what an f-string field \<^verbatim>\<open>{x}\<close> inserts.\<close>

fun py_str :: "pyval \<Rightarrow> string" where
  "py_str (PyStr s) = s"
| "py_str v = py_repr v"

section \<open>Exceptions\<close>

text \<open>
  The exception classes the handlers of \<^verbatim>\<open>agent.py\<close> tell apart, each carrying the text
  \<^verbatim>\<open>str(e)\<close>. All of them are subclasses of \<^verbatim>\<open>Exception\<close>; \<^verbatim>\<open>OtherError\<close> stands for any
  other subclass of \<^verbatim>\<open>Exception\<close>. \<^verbatim>\<open>requests.exceptions.Timeout\<close> is a
  \<^verbatim>\<open>RequestException\<close>, not the builtin \<^verbatim>\<open>TimeoutError\<close>. Exceptions outside \<^verbatim>\<open>Exception\<close>
  (\<^verbatim>\<open>KeyboardInterrupt\<close>, task cancellation) are not modelled.
\<close>

datatype exn =
    RequestException string
  | TimeoutError string
  | AttributeError string
  | ValueError string
  | TypeError string
  | OtherError string

fun exn_str :: "exn \<Rightarrow> string" where
  "exn_str (RequestException m) = m"
| "exn_str (TimeoutError m) = m"
| "exn_str (AttributeError m) = m"
| "exn_str (ValueError m) = m"
| "exn_str (TypeError m) = m"
| "exn_str (OtherError m) = m"

text \<open>\<^verbatim>\<open>x.get(key)\<close>: a dictionary answers (\<^verbatim>\<open>None\<close> for a missing key), any other value has no
  such attribute.\<close>

definition dict_get :: "(string \<times> pyval) list \<Rightarrow> string \<Rightarrow> pyval" where
  "dict_get kvs k = (case map_of kvs k of None \<Rightarrow> PyNone | Some v \<Rightarrow> v)"

fun py_get :: "pyval \<Rightarrow> string \<Rightarrow> exn + pyval" where
  "py_get (PyDict kvs) k = Inr (dict_get kvs k)"
| "py_get v k = Inl (AttributeError ([squote] @ type_name v @ [squote] @ '' object has no attribute '' @ [squote] @ ''get'' @ [squote]))"

section \<open>The world outside: the remote API and the clock\<close>

text \<open>A request as \<^verbatim>\<open>requests.request(method, url, json=json_data)\<close> receives it.\<close>

record request =
  http_method :: string
  url :: string
  json_data :: "pyval option"

text \<open>
  What the three calls \<^verbatim>\<open>requests.request\<close>, \<^verbatim>\<open>raise_for_status\<close> and \<^verbatim>\<open>response.json\<close> of
  \<^verbatim>\<open>_make_request\<close> do together: they yield a value or raise.
\<close>

datatype outcome = Returns pyval | Raises exn

text \<open>
  \<open>remote w n\<close> is the outcome of the \<open>n\<close>-th request of a tool invocation (counted from 0),
  \<open>clock w k\<close> the \<open>k\<close>-th reading of \<^verbatim>\<open>time.time()\<close>, in seconds. Nothing is assumed of either:
  the readings need not increase. The state records the requests issued, the lengths of the
  \<^verbatim>\<open>time.sleep\<close> calls, and how many readings were taken.
\<close>

record world =
  remote :: "nat \<Rightarrow> outcome"
  clock :: "nat \<Rightarrow> rat"

record state =
  calls :: "request list"
  sleeps :: "int list"
  reads :: nat

definition init :: state where
  "init = \<lparr>calls = [], sleeps = [], reads = 0\<rparr>"

definition time_time :: "world \<Rightarrow> state \<Rightarrow> rat \<times> state" where
  "time_time w s = (clock w (reads s), s\<lparr>reads := Suc (reads s)\<rparr>)"

text \<open>\<^verbatim>\<open>time.sleep\<close> refuses a negative length.\<close>

definition time_sleep :: "int \<Rightarrow> state \<Rightarrow> (exn + unit) \<times> state" where
  "time_sleep n s =
     (if n < 0 then (Inl (ValueError ''sleep length must be non-negative''), s)
      else (Inr (), s\<lparr>sleeps := sleeps s @ [n]\<rparr>))"

section \<open>The client: class \<^verbatim>\<open>Potpie\<close>\<close>

definition BASE_URL :: string where
  "BASE_URL = ''https://production-api.potpie.ai/api/v2''"

text \<open>\<^verbatim>\<open>_make_request\<close> logs and re-raises: every exception of the request passes through.\<close>

definition make_request :: "world \<Rightarrow> string \<Rightarrow> string \<Rightarrow> pyval option \<Rightarrow> state \<Rightarrow> (exn + pyval) \<times> state" where
  "make_request w meth endpoint jd s =
     (let s' = s\<lparr>calls := calls s @ [\<lparr>http_method = meth, url = BASE_URL @ endpoint, json_data = jd\<rparr>]\<rparr>
      in case remote w (length (calls s)) of
           Returns result \<Rightarrow> (Inr result, s')
         | Raises e \<Rightarrow> (Inl e, s'))"

definition parse_repository :: "world \<Rightarrow> string \<Rightarrow> string \<Rightarrow> state \<Rightarrow> (exn + pyval) \<times> state" where
  "parse_repository w repo_name branch_name s =
     make_request w ''POST'' ''/parse''
       (Some (PyDict [(''repo_name'', PyStr repo_name), (''branch_name'', PyStr branch_name)])) s"

text \<open>
  The \<^verbatim>\<open>while True\<close> loop of \<^verbatim>\<open>get_parsing_status\<close>. It may run forever, so it is a partial
  function: \<open>None\<close> is the run that never returns. One round is one request, then (when
  waiting and not ready) one reading of the clock and, if the deadline has not passed, one sleep.
\<close>

partial_function (option) get_parsing_status_loop ::
  "world \<Rightarrow> pyval \<Rightarrow> bool \<Rightarrow> int \<Rightarrow> int \<Rightarrow> rat \<Rightarrow> state \<Rightarrow> ((exn + pyval) \<times> state) option" where
  "get_parsing_status_loop w project_id wait_for_ready timeout poll_interval start_time s =
     (case make_request w ''GET'' (''/parsing-status/'' @ py_str project_id) None s of
        (Inl e, s1) \<Rightarrow> Some (Inl e, s1)
      | (Inr status_data, s1) \<Rightarrow>
          (if \<not> wait_for_ready then Some (Inr status_data, s1)
           else (case py_get status_data ''status'' of
             Inl e \<Rightarrow> Some (Inl e, s1)
           | Inr st \<Rightarrow>
               (if st = PyStr ''ready'' then Some (Inr status_data, s1)
                else (case time_time w s1 of
                  (now, s2) \<Rightarrow>
                    (if now - start_time > of_int timeout
                     then Some (Inl (TimeoutError (''Project '' @ py_str project_id
                             @ '' did not become ready within '' @ show_int timeout @ '' seconds.'')), s2)
                     else (case time_sleep poll_interval s2 of
                       (Inl e, s3) \<Rightarrow> Some (Inl e, s3)
                     | (Inr u, s3) \<Rightarrow>
                         get_parsing_status_loop w project_id wait_for_ready timeout poll_interval
                           start_time s3)))))))"

declare get_parsing_status_loop.simps [code]

definition get_parsing_status ::
  "world \<Rightarrow> pyval \<Rightarrow> bool \<Rightarrow> int \<Rightarrow> int \<Rightarrow> state \<Rightarrow> ((exn + pyval) \<times> state) option" where
  "get_parsing_status w project_id wait_for_ready timeout poll_interval s =
     (case time_time w s of
        (start_time, s0) \<Rightarrow>
          get_parsing_status_loop w project_id wait_for_ready timeout poll_interval start_time s0)"

definition create_conversation :: "world \<Rightarrow> pyval \<Rightarrow> pyval \<Rightarrow> state \<Rightarrow> (exn + pyval) \<times> state" where
  "create_conversation w project_ids agent_ids s =
     make_request w ''POST'' ''/conversations''
       (Some (PyDict ((''project_ids'', project_ids)
                      # (if truthy agent_ids then [(''agent_ids'', agent_ids)] else [])))) s"

definition send_message :: "world \<Rightarrow> pyval \<Rightarrow> string \<Rightarrow> pyval \<Rightarrow> pyval \<Rightarrow> state \<Rightarrow> (exn + pyval) \<times> state" where
  "send_message w conversation_id content agent_id node_ids s =
     make_request w ''POST'' (''/conversations/'' @ py_str conversation_id @ ''/message'')
       (Some (PyDict [(''content'', PyStr content), (''agent_id'', agent_id),
                      (''node_ids'', if node_ids \<noteq> PyNone then node_ids else PyList [])])) s"


section \<open>The tools\<close>

text \<open>
  Each tool is a body inside \<^verbatim>\<open>try\<close> and the handlers after it; \<^verbatim>\<open>asyncio.to_thread\<close> passes
  arguments, results and exceptions through. The functions below are the decorated
  functions, which the agent runtime runs when it invokes a tool.

  Inside the module the name of a tool is bound to what \<^verbatim>\<open>@tool(show_result=True)\<close> returns: an
  object of agno's class \<^verbatim>\<open>Function\<close>, which holds the decorated function and is not callable.
  A call of that name, as in \<^verbatim>\<open>await ask_parsed_repo(project_id=..., query=...)\<close>, raises
  \<^verbatim>\<open>TypeError\<close> before anything of the decorated function runs.
\<close>

definition call_tool_object ::
  "(state \<Rightarrow> ((exn + string) \<times> state) option) \<Rightarrow> state \<Rightarrow> ((exn + string) \<times> state) option" where
  "call_tool_object entrypoint s =
     Some (Inl (TypeError ([squote] @ ''Function'' @ [squote] @ '' object is not callable'')), s)"

definition start_repo_parsing_body :: "world \<Rightarrow> string \<Rightarrow> string \<Rightarrow> state \<Rightarrow> (exn + string) \<times> state" where
  "start_repo_parsing_body w repo_name branch_name s =
     (if repo_name = [] \<or> CHR ''/'' \<notin> set repo_name
      then (Inr (''Invalid repository name format. Expected format: '' @ [squote] @ ''owner/repo'' @ [squote]), s)
      else case parse_repository w repo_name branch_name s of
             (Inl e, s') \<Rightarrow> (Inl e, s')
           | (Inr result, s') \<Rightarrow>
               (case result of
                  PyDict kvs \<Rightarrow>
                    (case map_of kvs ''project_id'' of
                       Some project_id \<Rightarrow>
                         (Inr (''Successfully started parsing repository '' @ repo_name
                               @ [newline] @ ''Project ID: '' @ py_str project_id
                               @ [newline] @ ''Status: Parsing initiated''), s')
                     | None \<Rightarrow> (Inr ''Failed to parse repository: Invalid API response format'', s'))
                | _ \<Rightarrow> (Inr ''Failed to parse repository: Invalid API response format'', s')))"

definition start_repo_parsing :: "world \<Rightarrow> string \<Rightarrow> string \<Rightarrow> state \<Rightarrow> (exn + string) \<times> state" where
  "start_repo_parsing w repo_name branch_name s =
     (case start_repo_parsing_body w repo_name branch_name s of
        (Inl (RequestException m), s') \<Rightarrow>
          (Inr (''Failed to parse repository: Network error - '' @ m), s')
      | (Inl e, s') \<Rightarrow> (Inr (''Failed to parse repository: '' @ exn_str e), s')
      | (Inr out, s') \<Rightarrow> (Inr out, s'))"

definition check_repo_parsing_status_body :: "world \<Rightarrow> string \<Rightarrow> state \<Rightarrow> ((exn + string) \<times> state) option" where
  "check_repo_parsing_status_body w project_id s =
     (if project_id = [] then Some (Inr ''Invalid project_id: Project ID cannot be empty'', s)
      else case get_parsing_status w (PyStr project_id) False 300 10 s of
             None \<Rightarrow> None
           | Some (Inl e, s') \<Rightarrow> Some (Inl e, s')
           | Some (Inr status, s') \<Rightarrow>
               (case status of
                  PyDict kvs \<Rightarrow>
                    (let status_value = dict_get kvs ''status''
                     in if truthy status_value
                        then Some (Inr (''Current parsing status: '' @ py_str status_value), s')
                        else Some (Inr ''Failed to get parsing status: Invalid response format'', s'))
                | _ \<Rightarrow> Some (Inr ''Failed to get parsing status: Invalid API response type'', s')))"

definition check_repo_parsing_status :: "world \<Rightarrow> string \<Rightarrow> state \<Rightarrow> ((exn + string) \<times> state) option" where
  "check_repo_parsing_status w project_id s =
     (case check_repo_parsing_status_body w project_id s of
        None \<Rightarrow> None
      | Some (Inl (RequestException m), s') \<Rightarrow>
          Some (Inr (''Failed to get parsing status: Network error - '' @ m), s')
      | Some (Inl e, s') \<Rightarrow> Some (Inr (''Failed to get parsing status: '' @ exn_str e), s')
      | Some (Inr out, s') \<Rightarrow> Some (Inr out, s'))"

definition ask_parsed_repo_body :: "world \<Rightarrow> pyval \<Rightarrow> string \<Rightarrow> state \<Rightarrow> ((exn + string) \<times> state) option" where
  "ask_parsed_repo_body w project_id query s =
     (case get_parsing_status w project_id True 600 10 s of
        None \<Rightarrow> None
      | Some (Inl e, s1) \<Rightarrow> Some (Inl e, s1)
      | Some (Inr parsing_status, s1) \<Rightarrow>
          (case py_get parsing_status ''status'' of
             Inl e \<Rightarrow> Some (Inl e, s1)
           | Inr st \<Rightarrow>
               (if st \<noteq> PyStr ''ready''
                then Some (Inr (''Project '' @ py_str project_id
                        @ '' is not ready for querying. Status: '' @ py_str st), s1)
                else (case create_conversation w (PyList [project_id]) PyNone s1 of
                  (Inl e, s2) \<Rightarrow> Some (Inl e, s2)
                | (Inr conversation_data, s2) \<Rightarrow>
                    (case py_get conversation_data ''conversation_id'' of
                       Inl e \<Rightarrow> Some (Inl e, s2)
                     | Inr conversation_id \<Rightarrow>
                         (if \<not> truthy conversation_id
                          then Some (Inr ''Failed to create Potpie conversation.'', s2)
                          else (case send_message w conversation_id query PyNone PyNone s2 of
                            (Inl e, s3) \<Rightarrow> Some (Inl e, s3)
                          | (Inr message_response, s3) \<Rightarrow>
                              Some (Inr (py_str message_response), s3))))))))"

definition ask_parsed_repo :: "world \<Rightarrow> pyval \<Rightarrow> string \<Rightarrow> state \<Rightarrow> ((exn + string) \<times> state) option" where
  "ask_parsed_repo w project_id query s =
     (case ask_parsed_repo_body w project_id query s of
        None \<Rightarrow> None
      | Some (Inl (TimeoutError m), s') \<Rightarrow>
          Some (Inr (''Timeout waiting for repository parsing to complete: '' @ m), s')
      | Some (Inl e, s') \<Rightarrow> Some (Inr (''Failed to query repository: '' @ exn_str e), s')
      | Some (Inr out, s') \<Rightarrow> Some (Inr out, s'))"

definition analysis_query :: string where
  "analysis_query =
     ''Provide a detailed analysis of this repository including: ''
     @ ''current number of stars, current number of forks, typical commit frequency (e.g., High, Medium, Low), ''
     @ ''estimated average issue response time, assessment of documentation quality (e.g., score 1-10 or description), ''
     @ ''overall code quality assessment (e.g., Excellent, Good, Fair), community engagement level (e.g., Very Active, Active, Low), ''
     @ ''and maintenance status (e.g., Well Maintained, Needs Attention).''"

definition analyze_repository_body :: "world \<Rightarrow> string \<Rightarrow> state \<Rightarrow> ((exn + string) \<times> state) option" where
  "analyze_repository_body w repo_name s =
     (case parse_repository w repo_name ''main'' s of
        (Inl e, s1) \<Rightarrow> Some (Inl e, s1)
      | (Inr parse_result, s1) \<Rightarrow>
          (case py_get parse_result ''project_id'' of
             Inl e \<Rightarrow> Some (Inl e, s1)
           | Inr project_id \<Rightarrow>
               if \<not> truthy project_id
               then Some (Inr (''Failed to get project_id when starting parsing for '' @ repo_name
                       @ ''. Response: '' @ py_str parse_result), s1)
               else (case call_tool_object (ask_parsed_repo w project_id analysis_query) s1 of
                 None \<Rightarrow> None
               | Some (Inl e, s2) \<Rightarrow> Some (Inl e, s2)
               | Some (Inr analysis_response, s2) \<Rightarrow>
                   (if prefix ''Failed'' analysis_response
                   then Some (Inr analysis_response, s2)
                   else Some (Inr (''Analysis of repository '' @ repo_name @ '': '' @ analysis_response), s2)))))"

definition analyze_repository :: "world \<Rightarrow> string \<Rightarrow> state \<Rightarrow> ((exn + string) \<times> state) option" where
  "analyze_repository w repo_name s =
     (case analyze_repository_body w repo_name s of
        None \<Rightarrow> None
      | Some (Inl (TimeoutError m), s') \<Rightarrow>
          Some (Inr (''Timeout waiting for repository parsing/analysis: '' @ m), s')
      | Some (Inl e, s') \<Rightarrow> Some (Inr (''Failed to analyze repository: '' @ exn_str e), s')
      | Some (Inr out, s') \<Rightarrow> Some (Inr out, s'))"

definition trends_query :: string where
  "trends_query =
     ''Provide recent trending metrics for this repository including: ''
     @ ''star growth rate (e.g., percentage increase over the last month), ''
     @ ''fork growth rate (e.g., percentage increase over the last month), ''
     @ ''new contributor growth (e.g., number of new contributors in the last month), ''
     @ ''and the recent commit frequency trend (e.g., Increasing, Stable, Decreasing).''"

text \<open>
  The formatting of \<^verbatim>\<open>trends_response\<close> at the end of \<^verbatim>\<open>get_repository_trends\<close>, with the two
  \<^verbatim>\<open>isinstance(..., dict)\<close> tests of the source as they are written.
\<close>

definition format_trends :: "string \<Rightarrow> pyval \<Rightarrow> string" where
  "format_trends repo_name trends_response =
     (case trends_response of
        PyDict kvs \<Rightarrow>
          (case map_of kvs ''error'' of
             Some err \<Rightarrow> ''Potpie query failed for trends: '' @ py_str err
           | None \<Rightarrow>
               (case map_of kvs ''response'' of
                  Some resp \<Rightarrow> ''Potpie trends response for '' @ repo_name @ '': '' @ py_str resp
                | None \<Rightarrow> ''Potpie trends raw response for '' @ repo_name @ '': '' @ py_str trends_response))
      | _ \<Rightarrow> ''Potpie trends raw response for '' @ repo_name @ '': '' @ py_str trends_response)"

definition get_repository_trends_body :: "world \<Rightarrow> string \<Rightarrow> state \<Rightarrow> ((exn + string) \<times> state) option" where
  "get_repository_trends_body w repo_name s =
     (case parse_repository w repo_name ''main'' s of
        (Inl e, s1) \<Rightarrow> Some (Inl e, s1)
      | (Inr parse_result, s1) \<Rightarrow>
          (case py_get parse_result ''project_id'' of
             Inl e \<Rightarrow> Some (Inl e, s1)
           | Inr project_id \<Rightarrow>
               if \<not> truthy project_id
               then Some (Inr (''Failed to get project_id when starting parsing for '' @ repo_name
                       @ ''. Response: '' @ py_str parse_result), s1)
               else (case call_tool_object (ask_parsed_repo w project_id trends_query) s1 of
                 None \<Rightarrow> None
               | Some (Inl e, s2) \<Rightarrow> Some (Inl e, s2)
               | Some (Inr trends_response, s2) \<Rightarrow>
                   Some (Inr (format_trends repo_name (PyStr trends_response)), s2))))"

definition get_repository_trends :: "world \<Rightarrow> string \<Rightarrow> state \<Rightarrow> ((exn + string) \<times> state) option" where
  "get_repository_trends w repo_name s =
     (case get_repository_trends_body w repo_name s of
        None \<Rightarrow> None
      | Some (Inl (TimeoutError m), s') \<Rightarrow>
          Some (Inr (''Timeout waiting for repository parsing/trends: '' @ m), s')
      | Some (Inl e, s') \<Rightarrow> Some (Inr (''Failed to get repository trends: '' @ exn_str e), s')
      | Some (Inr out, s') \<Rightarrow> Some (Inr out, s'))"

section \<open>Vocabulary of the properties\<close>

text \<open>The four requests the client can issue, as they appear in \<^const>\<open>calls\<close>.\<close>

definition parse_request :: "string \<Rightarrow> string \<Rightarrow> request" where
  "parse_request repo_name branch_name =
     \<lparr>http_method = ''POST'', url = BASE_URL @ ''/parse'',
      json_data = Some (PyDict [(''repo_name'', PyStr repo_name), (''branch_name'', PyStr branch_name)])\<rparr>"

definition status_request :: "pyval \<Rightarrow> request" where
  "status_request project_id =
     \<lparr>http_method = ''GET'', url = BASE_URL @ ''/parsing-status/'' @ py_str project_id, json_data = None\<rparr>"

definition conversation_request :: "pyval \<Rightarrow> request" where
  "conversation_request project_id =
     \<lparr>http_method = ''POST'', url = BASE_URL @ ''/conversations'',
      json_data = Some (PyDict [(''project_ids'', PyList [project_id])])\<rparr>"

definition message_request :: "pyval \<Rightarrow> string \<Rightarrow> request" where
  "message_request conversation_id content =
     \<lparr>http_method = ''POST'', url = BASE_URL @ ''/conversations/'' @ py_str conversation_id @ ''/message'',
      json_data = Some (PyDict [(''content'', PyStr content), (''agent_id'', PyNone),
                                (''node_ids'', PyList [])])\<rparr>"

text \<open>What \<^verbatim>\<open>analyze_repository\<close> and \<^verbatim>\<open>get_repository_trends\<close> return when the parse result has
  no usable \<^verbatim>\<open>project_id\<close>.\<close>

definition no_project_id_message :: "string \<Rightarrow> pyval \<Rightarrow> string" where
  "no_project_id_message repo_name parse_result =
     ''Failed to get project_id when starting parsing for '' @ repo_name
       @ ''. Response: '' @ py_str parse_result"

text \<open>The text of the \<^verbatim>\<open>TypeError\<close> of \<^const>\<open>call_tool_object\<close>, and of the \<^verbatim>\<open>AttributeError\<close> of
  \<^verbatim>\<open>.get\<close> on a value that is not a record.\<close>

definition not_callable_message :: string where
  "not_callable_message = [squote] @ ''Function'' @ [squote] @ '' object is not callable''"

definition no_get_message :: "pyval \<Rightarrow> string" where
  "no_get_message v =
     [squote] @ type_name v @ [squote] @ '' object has no attribute '' @ [squote] @ ''get'' @ [squote]"

fun is_dict :: "pyval \<Rightarrow> bool" where
  "is_dict (PyDict kvs) = True"
| "is_dict v = False"

text \<open>
  What the body of \<^verbatim>\<open>analyze_repository\<close> and of \<^verbatim>\<open>get_repository_trends\<close> does: one parse
  request, and then an exception, or the message about the missing project id.
\<close>

definition after_parse :: "world \<Rightarrow> string \<Rightarrow> state \<Rightarrow> exn + string" where
  "after_parse w repo_name s =
     (case remote w (length (calls s)) of
        Raises e \<Rightarrow> Inl e
      | Returns parse_result \<Rightarrow>
          (case py_get parse_result ''project_id'' of
             Inl e \<Rightarrow> Inl e
           | Inr project_id \<Rightarrow>
               if \<not> truthy project_id then Inr (no_project_id_message repo_name parse_result)
               else Inl (TypeError not_callable_message)))"

text \<open>The text of the \<^verbatim>\<open>TimeoutError\<close> raised by \<^verbatim>\<open>get_parsing_status\<close>.\<close>

definition timeout_message :: "pyval \<Rightarrow> int \<Rightarrow> string" where
  "timeout_message project_id timeout =
     ''Project '' @ py_str project_id @ '' did not become ready within '' @ show_int timeout @ '' seconds.''"

text \<open>
  One round of the loop of \<^verbatim>\<open>get_parsing_status\<close>, for the proofs: it ends the loop with a
  result (\<open>Inl\<close>) or hands the next round its state (\<open>Inr\<close>). Lemma \<open>loop_unfold\<close> shows
  that the loop is its iteration.
\<close>

definition loop_round ::
  "world \<Rightarrow> pyval \<Rightarrow> bool \<Rightarrow> int \<Rightarrow> int \<Rightarrow> rat \<Rightarrow> state \<Rightarrow> ((exn + pyval) \<times> state) + state" where
  "loop_round w project_id wait_for_ready timeout poll_interval start_time s =
     (let s1 = s\<lparr>calls := calls s @ [status_request project_id]\<rparr>;
          s2 = s1\<lparr>reads := Suc (reads s)\<rparr>
      in case remote w (length (calls s)) of
           Raises e \<Rightarrow> Inl (Inl e, s1)
         | Returns status_data \<Rightarrow>
             (if \<not> wait_for_ready then Inl (Inr status_data, s1)
              else (case py_get status_data ''status'' of
                Inl e \<Rightarrow> Inl (Inl e, s1)
              | Inr st \<Rightarrow>
                  (if st = PyStr ''ready'' then Inl (Inr status_data, s1)
                   else if clock w (reads s) - start_time > of_int timeout
                     then Inl (Inl (TimeoutError (timeout_message project_id timeout)), s2)
                   else if poll_interval < 0
                     then Inl (Inl (ValueError ''sleep length must be non-negative''), s2)
                   else Inr (s2\<lparr>sleeps := sleeps s @ [poll_interval]\<rparr>)))))"

text \<open>
  The body of \<^verbatim>\<open>ask_parsed_repo\<close> with its not-ready branch (\<^verbatim>\<open>if parsing_status.get("status") != "ready": return ...\<close>)
  deleted and nothing else changed, to state that the branch is dead code.
\<close>

definition ask_parsed_repo_body_pruned :: "world \<Rightarrow> pyval \<Rightarrow> string \<Rightarrow> state \<Rightarrow> ((exn + string) \<times> state) option" where
  "ask_parsed_repo_body_pruned w project_id query s =
     (case get_parsing_status w project_id True 600 10 s of
        None \<Rightarrow> None
      | Some (Inl e, s1) \<Rightarrow> Some (Inl e, s1)
      | Some (Inr parsing_status, s1) \<Rightarrow>
          (case py_get parsing_status ''status'' of
             Inl e \<Rightarrow> Some (Inl e, s1)
           | Inr st \<Rightarrow>
               (case create_conversation w (PyList [project_id]) PyNone s1 of
                  (Inl e, s2) \<Rightarrow> Some (Inl e, s2)
                | (Inr conversation_data, s2) \<Rightarrow>
                    (case py_get conversation_data ''conversation_id'' of
                       Inl e \<Rightarrow> Some (Inl e, s2)
                     | Inr conversation_id \<Rightarrow>
                         (if \<not> truthy conversation_id
                          then Some (Inr ''Failed to create Potpie conversation.'', s2)
                          else (case send_message w conversation_id query PyNone PyNone s2 of
                            (Inl e, s3) \<Rightarrow> Some (Inl e, s3)
                          | (Inr message_response, s3) \<Rightarrow>
                              Some (Inr (py_str message_response), s3)))))))"

text \<open>Time passes: from any reading on, some later reading is beyond any given instant.\<close>

definition clock_advances :: "world \<Rightarrow> bool" where
  "clock_advances w = (\<forall>n t. \<exists>k\<ge>n. t < clock w k)"

subsection \<open>Worlds for the examples\<close>

text \<open>Every request is answered with an empty record; the clock stands still.\<close>

definition quiet_world :: world where
  "quiet_world = \<lparr>remote = (\<lambda>n. Returns (PyDict [])), clock = (\<lambda>k. 0)\<rparr>"

text \<open>A ready project, then a conversation, then the answer.\<close>

definition ready_world :: world where
  "ready_world =
     \<lparr>remote = (\<lambda>n. if n = 0 then Returns (PyDict [(''status'', PyStr ''ready'')])
                     else if n = 1 then Returns (PyDict [(''conversation_id'', PyStr ''c1'')])
                     else Returns (PyDict [(''message'', PyStr ''42'')])),
      clock = (\<lambda>k. 0)\<rparr>"

text \<open>Two fetches see \<^verbatim>\<open>queued\<close>, the third \<^verbatim>\<open>ready\<close>; one second between readings.\<close>

definition queued_then_ready_world :: world where
  "queued_then_ready_world =
     \<lparr>remote = (\<lambda>n. if n < 2 then Returns (PyDict [(''status'', PyStr ''queued'')])
                     else Returns (PyDict [(''status'', PyStr ''ready'')])),
      clock = (\<lambda>k. of_nat k)\<rparr>"

text \<open>Always \<^verbatim>\<open>queued\<close>; the first two readings of the clock are equal, as on a coarse clock.\<close>

definition stalled_world :: world where
  "stalled_world =
     \<lparr>remote = (\<lambda>n. Returns (PyDict [(''status'', PyStr ''queued'')])),
      clock = (\<lambda>k. if k \<le> 1 then 0 else 10)\<rparr>"

text \<open>Always \<^verbatim>\<open>queued\<close>; 400 seconds between readings.\<close>

definition ticking_world :: world where
  "ticking_world =
     \<lparr>remote = (\<lambda>n. Returns (PyDict [(''status'', PyStr ''queued'')])),
      clock = (\<lambda>k. 400 * of_nat k)\<rparr>"

text \<open>Every request fails with a network error.\<close>

definition failing_world :: world where
  "failing_world = \<lparr>remote = (\<lambda>n. Raises (RequestException ''boom'')), clock = (\<lambda>k. 0)\<rparr>"

text \<open>The project is ready; every later request fails with a network error.\<close>

definition conversation_fails_world :: world where
  "conversation_fails_world =
     \<lparr>remote = (\<lambda>n. if n = 0 then Returns (PyDict [(''status'', PyStr ''ready'')])
                     else Raises (RequestException ''boom'')),
      clock = (\<lambda>k. 0)\<rparr>"

text \<open>Every request is answered with an empty JSON array.\<close>

definition list_world :: world where
  "list_world = \<lparr>remote = (\<lambda>n. Returns (PyList [])), clock = (\<lambda>k. 0)\<rparr>"

text \<open>Every request is answered with a record that holds a project id.\<close>

definition project_world :: world where
  "project_world = \<lparr>remote = (\<lambda>n. Returns (PyDict [(''project_id'', PyStr ''p1'')])), clock = (\<lambda>k. 0)\<rparr>"

section \<open>Lemmas on the client\<close>

lemma make_request_eq:
  "make_request w m e j s =
     (case remote w (length (calls s)) of Returns v \<Rightarrow> Inr v | Raises x \<Rightarrow> Inl x,
      s\<lparr>calls := calls s @ [\<lparr>http_method = m, url = BASE_URL @ e, json_data = j\<rparr>]\<rparr>)"
  by (simp add: make_request_def Let_def split: outcome.splits)

lemma start_repo_parsing_calls:
  "calls (snd (start_repo_parsing w repo_name branch_name s)) =
     (if CHR ''/'' \<in> set repo_name then calls s @ [parse_request repo_name branch_name] else calls s)"
  by (auto simp: start_repo_parsing_def start_repo_parsing_body_def parse_repository_def
      make_request_def parse_request_def Let_def
      split: outcome.splits exn.splits pyval.splits option.splits)

section \<open>Lemmas on the polling loop\<close>

text \<open>The loop is the iteration of \<^const>\<open>loop_round\<close>, for any continuation \<open>loop\<close>.\<close>

lemma body_round:
  "(case make_request w ''GET'' (''/parsing-status/'' @ py_str pid) None s of
        (Inl e, s1) \<Rightarrow> Some (Inl e, s1)
      | (Inr status_data, s1) \<Rightarrow>
          (if \<not> wait then Some (Inr status_data, s1)
           else (case py_get status_data ''status'' of
             Inl e \<Rightarrow> Some (Inl e, s1)
           | Inr st \<Rightarrow>
               (if st = PyStr ''ready'' then Some (Inr status_data, s1)
                else (case time_time w s1 of
                  (now, s2) \<Rightarrow>
                    (if now - start > of_int timeout
                     then Some (Inl (TimeoutError (''Project '' @ py_str pid
                             @ '' did not become ready within '' @ show_int timeout @ '' seconds.'')), s2)
                     else (case time_sleep poll s2 of
                       (Inl e, s3) \<Rightarrow> Some (Inl e, s3)
                     | (Inr u, s3) \<Rightarrow> loop w pid wait timeout poll start s3)))))))
   = (case loop_round w pid wait timeout poll start s of
        Inl res \<Rightarrow> Some res
      | Inr s3 \<Rightarrow> loop w pid wait timeout poll start s3)"
  by (simp add: loop_round_def make_request_def status_request_def timeout_message_def
      time_time_def time_sleep_def Let_def split: outcome.splits sum.splits)

lemma loop_unfold:
  "get_parsing_status_loop w pid wait timeout poll start s =
     (case loop_round w pid wait timeout poll start s of
        Inl res \<Rightarrow> Some res
      | Inr s3 \<Rightarrow> get_parsing_status_loop w pid wait timeout poll start s3)"
  by (subst get_parsing_status_loop.simps) (rule body_round)

text \<open>
  Induction over the rounds of a run that returns: the property holds of the state of the last
  round, and passes from the state after a round to the state before it.
\<close>

lemma loop_induct [consumes 1, case_names return continue]:
  assumes run: "get_parsing_status_loop w pid wait timeout poll start s = Some y"
    and fin: "\<And>s. loop_round w pid wait timeout poll start s = Inl y \<Longrightarrow> P s"
    and cont: "\<And>s s3. loop_round w pid wait timeout poll start s = Inr s3 \<Longrightarrow> P s3 \<Longrightarrow> P s"
  shows "P s"
proof -
  let ?Q = "\<lambda>w' pid' wait' timeout' poll' start' s y'.
      w' = w \<and> pid' = pid \<and> wait' = wait \<and> timeout' = timeout \<and> poll' = poll
        \<and> start' = start \<and> y' = y \<longrightarrow> P s"
  have "?Q w pid wait timeout poll start s y"
  proof (rule get_parsing_status_loop.raw_induct [where P = ?Q, OF _ run], goal_cases)
    case (1 loop w' pid' wait' timeout' poll' start' s y')
    note IH = "1"(1) and body = "1"(2) [unfolded body_round]
    show ?case
    proof (intro impI, elim conjE)
      assume eqs: "w' = w" "pid' = pid" "wait' = wait" "timeout' = timeout" "poll' = poll"
        "start' = start" "y' = y"
      show "P s"
      proof (cases "loop_round w pid wait timeout poll start s")
        case (Inl res)
        with body eqs have "res = y" by simp
        with Inl show ?thesis by (simp add: fin)
      next
        case (Inr s3)
        with body eqs have "loop w pid wait timeout poll start s3 = Some y" by simp
        from IH [OF this] have "P s3" by simp
        with Inr show ?thesis by (rule cont)
      qed
    qed
  qed
  then show ?thesis by simp
qed

lemma loop_round_calls:
  "loop_round w pid wait timeout poll start s = Inl (r, s') \<Longrightarrow> calls s' = calls s @ [status_request pid]"
  "loop_round w pid wait timeout poll start s = Inr s3 \<Longrightarrow> calls s3 = calls s @ [status_request pid]"
  by (auto simp: loop_round_def Let_def split: outcome.splits sum.splits if_splits)

lemma loop_calls:
  assumes "get_parsing_status_loop w pid wait timeout poll start s = Some (r, s')"
  shows "\<exists>n. calls s' = calls s @ replicate (Suc n) (status_request pid)"
  using assms
proof (induction rule: loop_induct)
  case (return s)
  then have "calls s' = calls s @ replicate (Suc 0) (status_request pid)"
    by (simp add: loop_round_calls)
  then show ?case by blast
next
  case (continue s s3)
  then obtain n where "calls s' = calls s3 @ replicate (Suc n) (status_request pid)" by blast
  with continue(1) have "calls s' = calls s @ replicate (Suc (Suc n)) (status_request pid)"
    by (simp add: loop_round_calls)
  then show ?case by blast
qed

lemma loop_ready:
  assumes "get_parsing_status_loop w pid True timeout poll start s = Some (Inr j, s')"
  shows "py_get j ''status'' = Inr (PyStr ''ready'')"
  using assms
proof (induction rule: loop_induct)
  case (return s)
  then show ?case
    by (auto simp: loop_round_def Let_def split: outcome.splits sum.splits if_splits)
next
  case (continue s s3)
  then show ?case by simp
qed

lemma loop_last_raises:
  assumes "get_parsing_status_loop w pid wait timeout poll start s = Some (r, s')"
    and "remote w (length (calls s') - 1) = Raises e"
  shows "r = Inl e"
  using assms
proof (induction rule: loop_induct)
  case (return s)
  then show ?case
    by (auto simp: loop_round_def Let_def split: outcome.splits sum.splits if_splits)
next
  case (continue s s3)
  then show ?case by simp
qed

text \<open>A run returns once some reading of the clock ahead is past the deadline.\<close>

lemma loop_returns:
  assumes "reads s \<le> k" and "of_int timeout < clock w k - start"
  shows "\<exists>y. get_parsing_status_loop w pid wait timeout poll start s = Some y"
  using assms
proof (induction "k - reads s" arbitrary: s)
  case 0
  then have "reads s = k" by simp
  with 0 show ?case
    by (subst loop_unfold) (auto simp: loop_round_def Let_def split: outcome.splits sum.splits)
next
  case (Suc n)
  show ?case
  proof (cases "loop_round w pid wait timeout poll start s")
    case (Inl res)
    then show ?thesis by (subst loop_unfold) simp
  next
    case (Inr s3)
    then have "reads s3 = Suc (reads s)"
      by (auto simp: loop_round_def Let_def split: outcome.splits sum.splits if_splits)
    with Suc have "\<exists>y. get_parsing_status_loop w pid wait timeout poll start s3 = Some y"
      by (intro Suc.hyps) auto
    with Inr show ?thesis by (subst loop_unfold) simp
  qed
qed



lemma get_parsing_status_unfold:
  "get_parsing_status w pid wait timeout poll s =
     get_parsing_status_loop w pid wait timeout poll (clock w (reads s)) (s\<lparr>reads := Suc (reads s)\<rparr>)"
  by (simp add: get_parsing_status_def time_time_def)

section \<open>Lemmas on \<^verbatim>\<open>ask_parsed_repo\<close>\<close>

lemma get_parsing_status_returns:
  assumes "clock_advances w"
  shows "\<exists>y. get_parsing_status w pid wait timeout poll s = Some y"
proof -
  from assms obtain k where "Suc (reads s) \<le> k" "clock w (reads s) + of_int timeout < clock w k"
    unfolding clock_advances_def by blast
  then have "reads (s\<lparr>reads := Suc (reads s)\<rparr>) \<le> k" "of_int timeout < clock w k - clock w (reads s)"
    by simp_all
  from loop_returns [OF this] show ?thesis
    by (simp add: get_parsing_status_unfold)
qed

lemma create_conversation_eq:
  "create_conversation w (PyList [pid]) PyNone s =
     (case remote w (length (calls s)) of Returns v \<Rightarrow> Inr v | Raises x \<Rightarrow> Inl x,
      s\<lparr>calls := calls s @ [conversation_request pid]\<rparr>)"
  by (simp add: create_conversation_def make_request_eq conversation_request_def)

lemma send_message_eq:
  "send_message w cid q PyNone PyNone s =
     (case remote w (length (calls s)) of Returns v \<Rightarrow> Inr v | Raises x \<Rightarrow> Inl x,
      s\<lparr>calls := calls s @ [message_request cid q]\<rparr>)"
  by (simp add: send_message_def make_request_eq message_request_def)

text \<open>
  How a returning run of the body of \<^verbatim>\<open>ask_parsed_repo\<close> went: the wait raised; or it
  returned a ready record and the conversation request raised, or was answered with no usable
  \<^verbatim>\<open>conversation_id\<close>; or the message was sent.
\<close>

lemma ask_body_cases [consumes 1, case_names poll_raised conversation_raised no_conversation message_sent]:
  assumes run: "ask_parsed_repo_body w pid q s = Some (a, s')"
  obtains
    e where "get_parsing_status w pid True 600 10 s = Some (Inl e, s')" "a = Inl e"
  | j s1 e where "get_parsing_status w pid True 600 10 s = Some (Inr j, s1)"
      "remote w (length (calls s1)) = Raises e"
      "s' = s1\<lparr>calls := calls s1 @ [conversation_request pid]\<rparr>" "a = Inl e"
  | j s1 c where "get_parsing_status w pid True 600 10 s = Some (Inr j, s1)"
      "remote w (length (calls s1)) = Returns c"
      "s' = s1\<lparr>calls := calls s1 @ [conversation_request pid]\<rparr>"
  | j s1 c cid where "get_parsing_status w pid True 600 10 s = Some (Inr j, s1)"
      "remote w (length (calls s1)) = Returns c"
      "s' = s1\<lparr>calls := calls s1 @ [conversation_request pid, message_request cid q]\<rparr>"
      "a = (case remote w (Suc (length (calls s1))) of Returns v \<Rightarrow> Inr (py_str v) | Raises x \<Rightarrow> Inl x)"
proof (cases "get_parsing_status w pid True 600 10 s")
  case None
  with run show ?thesis by (simp add: ask_parsed_repo_body_def)
next
  case (Some y)
  obtain r1 s1 where y: "y = (r1, s1)" by (cases y)
  show ?thesis
  proof (cases r1)
    case (Inl e)
    with Some y run have "s' = s1" "a = Inl e" by (simp_all add: ask_parsed_repo_body_def)
    with Some y Inl show ?thesis by (intro that(1) [of e]) simp_all
  next
    case (Inr j)
    with Some y have ready: "py_get j ''status'' = Inr (PyStr ''ready'')"
      by (auto simp: get_parsing_status_unfold dest: loop_ready)
    note gps = Some [unfolded y Inr]
    let ?s2 = "s1\<lparr>calls := calls s1 @ [conversation_request pid]\<rparr>"
    show ?thesis
    proof (cases "remote w (length (calls s1))")
      case (Raises e)
      with run gps ready have "s' = ?s2" "a = Inl e"
        by (simp_all add: ask_parsed_repo_body_def create_conversation_eq)
      with gps Raises show ?thesis by (intro that(2) [of j s1 e]) simp_all
    next
      case (Returns c)
      show ?thesis
      proof (cases "py_get c ''conversation_id''")
        case (Inl e)
        with run gps ready Returns have "s' = ?s2"
          by (simp add: ask_parsed_repo_body_def create_conversation_eq)
        with gps Returns show ?thesis by (intro that(3) [of j s1 c]) simp_all
      next
        case (Inr cid)
        show ?thesis
        proof (cases "truthy cid")
          case False
          with Inr run gps ready Returns have "s' = ?s2"
            by (simp add: ask_parsed_repo_body_def create_conversation_eq)
          with gps Returns show ?thesis by (intro that(3) [of j s1 c]) simp_all
        next
          case True
          with Inr run gps ready Returns
          have "s' = s1\<lparr>calls := calls s1 @ [conversation_request pid, message_request cid q]\<rparr>"
            "a = (case remote w (Suc (length (calls s1))) of Returns v \<Rightarrow> Inr (py_str v) | Raises x \<Rightarrow> Inl x)"
            by (auto simp: ask_parsed_repo_body_def create_conversation_eq send_message_eq
                split: outcome.splits)
          with gps Returns show ?thesis by (intro that(4) [of j s1 c cid]) simp_all
        qed
      qed
    qed
  qed
qed

lemma ask_raised:
  assumes "ask_parsed_repo_body w pid q s = Some (Inl e, s1)"
  shows "ask_parsed_repo w pid q s =
     Some (Inr (case e of TimeoutError m \<Rightarrow> ''Timeout waiting for repository parsing to complete: '' @ m
                | _ \<Rightarrow> ''Failed to query repository: '' @ exn_str e), s1)"
  using assms by (cases e) (simp_all add: ask_parsed_repo_def)

lemma ask_returned:
  assumes "ask_parsed_repo_body w pid q s = Some (Inr out, s1)"
  shows "ask_parsed_repo w pid q s = Some (Inr out, s1)"
  using assms by (simp add: ask_parsed_repo_def)

lemma ask_handlers:
  assumes "ask_parsed_repo_body w pid q s = Some (a, s')"
  shows "\<exists>out. ask_parsed_repo w pid q s = Some (Inr out, s')"
proof (cases a)
  case (Inl e)
  with assms ask_raised show ?thesis by blast
next
  case (Inr out)
  with assms ask_returned show ?thesis by blast
qed

lemma ask_body_of_run:
  assumes "ask_parsed_repo w pid q s = Some (r, s')"
  shows "\<exists>a. ask_parsed_repo_body w pid q s = Some (a, s')"
proof (cases "ask_parsed_repo_body w pid q s")
  case None
  with assms show ?thesis by (simp add: ask_parsed_repo_def)
next
  case (Some y)
  obtain a s1 where y: "y = (a, s1)" by (cases y)
  from ask_handlers [OF Some [unfolded y]] assms have "s' = s1" by auto
  with Some y show ?thesis by simp
qed

lemma ask_never_raises:
  "ask_parsed_repo w pid q s \<noteq> Some (Inl e, s')"
proof
  assume run: "ask_parsed_repo w pid q s = Some (Inl e, s')"
  from ask_body_of_run [OF run] obtain a where "ask_parsed_repo_body w pid q s = Some (a, s')" ..
  from ask_handlers [OF this] run show False by auto
qed

lemma ask_calls_extend:
  assumes "ask_parsed_repo w pid q s = Some (r, s')"
  shows "\<exists>cs. calls s' = calls s @ status_request pid # cs"
proof -
  from ask_body_of_run [OF assms] obtain a where "ask_parsed_repo_body w pid q s = Some (a, s')" ..
  then show ?thesis
  proof (cases rule: ask_body_cases)
    case (poll_raised e)
    from loop_calls [OF poll_raised(1) [unfolded get_parsing_status_unfold]] show ?thesis by auto
  next
    case (conversation_raised j s1 e)
    from loop_calls [OF conversation_raised(1) [unfolded get_parsing_status_unfold]] conversation_raised(3)
    show ?thesis by auto
  next
    case (no_conversation j s1 c)
    from loop_calls [OF no_conversation(1) [unfolded get_parsing_status_unfold]] no_conversation(3)
    show ?thesis by auto
  next
    case (message_sent j s1 c cid)
    from loop_calls [OF message_sent(1) [unfolded get_parsing_status_unfold]] message_sent(3)
    show ?thesis by auto
  qed
qed

lemma ask_last_raises:
  assumes run: "ask_parsed_repo w pid q s = Some (r, s')"
    and last: "remote w (length (calls s') - 1) = Raises (RequestException m)"
  shows "r = Inr (''Failed to query repository: '' @ m)"
proof -
  from ask_body_of_run [OF run] obtain a where body: "ask_parsed_repo_body w pid q s = Some (a, s')" ..
  have "a = Inl (RequestException m)"
    using body
  proof (cases rule: ask_body_cases)
    case (poll_raised e)
    from loop_last_raises [OF poll_raised(1) [unfolded get_parsing_status_unfold]] last poll_raised(2)
    show ?thesis by simp
  next
    case (conversation_raised j s1 e)
    with last show ?thesis by simp
  next
    case (no_conversation j s1 c)
    with last show ?thesis by simp
  next
    case (message_sent j s1 c cid)
    with last show ?thesis by simp
  qed
  with body have "ask_parsed_repo_body w pid q s = Some (Inl (RequestException m), s')" by simp
  from ask_raised [OF this] run show ?thesis by simp
qed

lemma ask_returns:
  assumes "clock_advances w"
  shows "\<exists>out s'. ask_parsed_repo w pid q s = Some (Inr out, s')"
proof -
  from get_parsing_status_returns [OF assms] obtain y where
    "get_parsing_status w pid True 600 10 s = Some y" by blast
  then have "\<exists>z. ask_parsed_repo_body w pid q s = Some z"
    by (cases y)
       (simp add: ask_parsed_repo_body_def create_conversation_eq send_message_eq
         split: sum.splits outcome.splits)
  then obtain a s' where "ask_parsed_repo_body w pid q s = Some (a, s')" by auto
  from ask_handlers [OF this] show ?thesis by blast
qed

section \<open>Lemmas on the tools that parse first\<close>

lemma no_project_id_message_mentions:
  "sublist ''project_id'' (no_project_id_message repo_name parse_result)"
  unfolding sublist_def no_project_id_message_def
  by (rule exI [of _ "''Failed to get ''"]) simp

lemma parse_repository_eq:
  "parse_repository w repo_name branch_name s =
     (case remote w (length (calls s)) of Returns v \<Rightarrow> Inr v | Raises x \<Rightarrow> Inl x,
      s\<lparr>calls := calls s @ [parse_request repo_name branch_name]\<rparr>)"
  by (simp add: parse_repository_def make_request_eq parse_request_def)

lemma py_get_not_dict: "\<not> is_dict v \<Longrightarrow> py_get v k = Inl (AttributeError (no_get_message v))"
  by (cases v) (simp_all add: no_get_message_def)

lemma analyze_repository_body_eq:
  "analyze_repository_body w repo_name s =
     Some (after_parse w repo_name s, s\<lparr>calls := calls s @ [parse_request repo_name ''main'']\<rparr>)"
  by (simp add: analyze_repository_body_def parse_repository_eq call_tool_object_def after_parse_def
      no_project_id_message_def not_callable_message_def split: outcome.splits sum.splits)

lemma get_repository_trends_body_eq:
  "get_repository_trends_body w repo_name s =
     Some (after_parse w repo_name s, s\<lparr>calls := calls s @ [parse_request repo_name ''main'']\<rparr>)"
  by (simp add: get_repository_trends_body_def parse_repository_eq call_tool_object_def after_parse_def
      no_project_id_message_def not_callable_message_def split: outcome.splits sum.splits)

lemma analyze_repository_raised:
  assumes "analyze_repository_body w repo_name s = Some (Inl e, s1)"
  shows "analyze_repository w repo_name s =
     Some (Inr (case e of TimeoutError m \<Rightarrow> ''Timeout waiting for repository parsing/analysis: '' @ m
                | _ \<Rightarrow> ''Failed to analyze repository: '' @ exn_str e), s1)"
  using assms by (cases e) (simp_all add: analyze_repository_def)

lemma analyze_repository_returned:
  assumes "analyze_repository_body w repo_name s = Some (Inr out, s1)"
  shows "analyze_repository w repo_name s = Some (Inr out, s1)"
  using assms by (simp add: analyze_repository_def)

lemma get_repository_trends_raised:
  assumes "get_repository_trends_body w repo_name s = Some (Inl e, s1)"
  shows "get_repository_trends w repo_name s =
     Some (Inr (case e of TimeoutError m \<Rightarrow> ''Timeout waiting for repository parsing/trends: '' @ m
                | _ \<Rightarrow> ''Failed to get repository trends: '' @ exn_str e), s1)"
  using assms by (cases e) (simp_all add: get_repository_trends_def)

lemma get_repository_trends_returned:
  assumes "get_repository_trends_body w repo_name s = Some (Inr out, s1)"
  shows "get_repository_trends w repo_name s = Some (Inr out, s1)"
  using assms by (simp add: get_repository_trends_def)

lemma analyze_repository_total:
  "\<exists>out. analyze_repository w repo_name s =
     Some (Inr out, s\<lparr>calls := calls s @ [parse_request repo_name ''main'']\<rparr>)"
proof (cases "after_parse w repo_name s")
  case (Inl e)
  with analyze_repository_body_eq [of w repo_name s] analyze_repository_raised show ?thesis
    by (metis (no_types))
next
  case (Inr out)
  with analyze_repository_body_eq [of w repo_name s] analyze_repository_returned show ?thesis
    by (metis (no_types))
qed

lemma get_repository_trends_total:
  "\<exists>out. get_repository_trends w repo_name s =
     Some (Inr out, s\<lparr>calls := calls s @ [parse_request repo_name ''main'']\<rparr>)"
proof (cases "after_parse w repo_name s")
  case (Inl e)
  with get_repository_trends_body_eq [of w repo_name s] get_repository_trends_raised show ?thesis
    by (metis (no_types))
next
  case (Inr out)
  with get_repository_trends_body_eq [of w repo_name s] get_repository_trends_returned show ?thesis
    by (metis (no_types))
qed

lemma check_status_eq:
  "project_id \<noteq> [] \<Longrightarrow>
   check_repo_parsing_status_body w project_id s =
     (case loop_round w (PyStr project_id) False 300 10 (clock w (reads s)) (s\<lparr>reads := Suc (reads s)\<rparr>) of
        Inl (Inl e, s') \<Rightarrow> Some (Inl e, s')
      | Inl (Inr status, s') \<Rightarrow>
          (case status of
             PyDict kvs \<Rightarrow>
               (if truthy (dict_get kvs ''status'')
                then Some (Inr (''Current parsing status: '' @ py_str (dict_get kvs ''status'')), s')
                else Some (Inr ''Failed to get parsing status: Invalid response format'', s'))
           | _ \<Rightarrow> Some (Inr ''Failed to get parsing status: Invalid API response type'', s'))
      | Inr s3 \<Rightarrow> None)"
  apply (simp add: check_repo_parsing_status_body_def get_parsing_status_unfold)
  apply (subst loop_unfold)
  apply (simp add: loop_round_def Let_def split: outcome.splits pyval.splits)
  done

lemma start_repo_parsing_total:
  "\<exists>out s'. start_repo_parsing w repo_name branch_name s = (Inr out, s')"
proof (cases "start_repo_parsing_body w repo_name branch_name s")
  case (Pair a s1)
  show ?thesis
  proof (cases a)
    case (Inl e)
    with Pair show ?thesis by (cases e) (simp_all add: start_repo_parsing_def)
  next
    case (Inr out)
    with Pair show ?thesis by (simp add: start_repo_parsing_def)
  qed
qed

lemma check_repo_parsing_status_body_total:
  "\<exists>a s'. check_repo_parsing_status_body w project_id s = Some (a, s')"
proof (cases "project_id = []")
  case True
  then show ?thesis by (simp add: check_repo_parsing_status_body_def)
next
  case False
  then show ?thesis
    by (simp add: check_status_eq loop_round_def Let_def split: outcome.splits pyval.splits)
qed

lemma check_repo_parsing_status_total:
  "\<exists>out s'. check_repo_parsing_status w project_id s = Some (Inr out, s')"
proof -
  from check_repo_parsing_status_body_total obtain a s1 where
    body: "check_repo_parsing_status_body w project_id s = Some (a, s1)" by blast
  show ?thesis
  proof (cases a)
    case (Inl e)
    with body show ?thesis by (cases e) (simp_all add: check_repo_parsing_status_def)
  next
    case (Inr out)
    with body show ?thesis by (simp add: check_repo_parsing_status_def)
  qed
qed

lemma ticking_world_advances: "clock_advances ticking_world"
  unfolding clock_advances_def
proof (intro allI)
  fix n :: nat and t :: rat
  obtain m where m: "t < of_nat m" using reals_Archimedean2 by blast
  have "of_nat m \<le> (of_nat (max n m) :: rat)" by simp
  also have "\<dots> \<le> 400 * of_nat (max n m)" by simp
  finally have "t < clock ticking_world (max n m)" using m by (simp add: ticking_world_def)
  then show "\<exists>k\<ge>n. t < clock ticking_world k" by (intro exI [of _ "max n m"]) simp
qed

text \<open>
  A request that is due to fail bounds the run of the loop: each round issues one request,
  so the loop returns at that request at the latest.
\<close>

lemma loop_round_length:
  "loop_round w pid wait timeout poll start s = Inl (r, s') \<Longrightarrow> length (calls s') = Suc (length (calls s))"
  "loop_round w pid wait timeout poll start s = Inr s3 \<Longrightarrow> length (calls s3) = Suc (length (calls s))"
  by (simp_all add: loop_round_calls)

lemma loop_round_raises:
  "remote w (length (calls s)) = Raises e \<Longrightarrow>
     loop_round w pid wait timeout poll start s = Inl (Inl e, s\<lparr>calls := calls s @ [status_request pid]\<rparr>)"
  by (simp add: loop_round_def Let_def)

lemma loop_bounded:
  assumes "remote w n = Raises e" and "length (calls s) \<le> n"
  shows "\<exists>r s'. get_parsing_status_loop w pid wait timeout poll start s = Some (r, s')
           \<and> length (calls s') \<le> Suc n"
  using assms(2)
proof (induction "n - length (calls s)" arbitrary: s)
  case 0
  with assms(1) have "remote w (length (calls s)) = Raises e" by simp
  from loop_round_raises [OF this] 0 show ?case
    by (subst loop_unfold) simp
next
  case (Suc d)
  show ?case
  proof (cases "loop_round w pid wait timeout poll start s")
    case (Inl res)
    obtain r s' where res: "res = (r, s')" by (cases res)
    with Inl Suc.hyps(2) Suc.prems loop_round_length(1) [of w pid wait timeout poll start s r s']
    show ?thesis by (subst loop_unfold) simp
  next
    case (Inr s3)
    with Suc.hyps(2) Suc.prems loop_round_length(2) [of w pid wait timeout poll start s s3]
    have "d = n - length (calls s3)" "length (calls s3) \<le> n" by simp_all
    from Suc.hyps(1) [OF this] Inr show ?thesis by (subst loop_unfold) simp
  qed
qed

lemma ask_bounded:
  assumes fails: "remote w n = Raises e" and le: "length (calls s) \<le> n"
  shows "\<exists>out s'. ask_parsed_repo w pid q s = Some (Inr out, s') \<and> length (calls s') \<le> Suc n"
proof -
  from loop_bounded [OF fails, of "s\<lparr>reads := Suc (reads s)\<rparr>" pid True 600 10 "clock w (reads s)"] le
  obtain r1 s1 where gps: "get_parsing_status w pid True 600 10 s = Some (r1, s1)"
    and s1: "length (calls s1) \<le> Suc n"
    by (auto simp: get_parsing_status_unfold)
  then have "\<exists>z. ask_parsed_repo_body w pid q s = Some z"
    by (simp add: ask_parsed_repo_body_def create_conversation_eq send_message_eq
         split: sum.splits outcome.splits)
  then obtain a s' where body: "ask_parsed_repo_body w pid q s = Some (a, s')" by auto
  from ask_handlers [OF body] obtain out where run: "ask_parsed_repo w pid q s = Some (Inr out, s')" ..
  have ready_short: "length (calls s1) \<le> n" if "r1 = Inr j" for j
  proof (rule ccontr)
    assume "\<not> length (calls s1) \<le> n"
    with s1 have "length (calls s1) - 1 = n" by simp
    with fails loop_last_raises [OF gps [unfolded get_parsing_status_unfold], of e] that
    show False by simp
  qed
  have "length (calls s') \<le> Suc n"
    using body
  proof (cases rule: ask_body_cases)
    case (poll_raised e')
    with gps s1 show ?thesis by simp
  next
    case (conversation_raised j s1' e')
    with gps ready_short [of j] show ?thesis by simp
  next
    case (no_conversation j s1' c)
    with gps ready_short [of j] show ?thesis by simp
  next
    case (message_sent j s1' c cid)
    with gps ready_short [of j] have "length (calls s1') \<le> n" "s1' = s1" by simp_all
    moreover from message_sent(2) fails have "length (calls s1') \<noteq> n" by auto
    ultimately show ?thesis using message_sent(3) by simp
  qed
  with run show ?thesis by blast
qed

text \<open>
  With a project id in the parse answer, the run ends at the call of the tool object: one
  request, and the text of the \<^verbatim>\<open>TypeError\<close>.
\<close>

lemma analyze_with_project_id:
  "analyze_repository project_world ''owner/repo'' init =
     Some (Inr (''Failed to analyze repository: '' @ not_callable_message),
           \<lparr>calls = [parse_request ''owner/repo'' ''main''], sleeps = [], reads = 0\<rparr>)"
proof -
  have "analyze_repository_body project_world ''owner/repo'' init =
      Some (Inl (TypeError not_callable_message),
            \<lparr>calls = [parse_request ''owner/repo'' ''main''], sleeps = [], reads = 0\<rparr>)"
    by (simp add: analyze_repository_body_eq after_parse_def project_world_def init_def dict_get_def)
  from analyze_repository_raised [OF this] show ?thesis by simp
qed

section \<open>Validation of the repository name\<close>

text \<open>
  Claim C8. For every \<^verbatim>\<open>repo_name\<close> without the separator \<^verbatim>\<open>/\<close>, \<^verbatim>\<open>start_repo_parsing\<close>
  returns the validation-failure string and issues no request: the state, and with it the
  list of requests, is the one it started from.
\<close>

theorem start_repo_parsing_no_separator:
  "CHR ''/'' \<notin> set repo_name \<Longrightarrow>
     start_repo_parsing w repo_name branch_name s =
       (Inr (''Invalid repository name format. Expected format: '' @ [squote] @ ''owner/repo'' @ [squote]), s)"
  by (simp add: start_repo_parsing_def start_repo_parsing_body_def)

theorem start_repo_parsing_no_separator_witness:
  "CHR ''/'' \<notin> set ''ownerrepo'' \<and>
   start_repo_parsing quiet_world ''ownerrepo'' ''main'' init =
       (Inr (''Invalid repository name format. Expected format: '' @ [squote] @ ''owner/repo'' @ [squote]), init)
   \<and> calls init = []"
  using start_repo_parsing_no_separator [of "''ownerrepo''" quiet_world "''main''" init]
  by (simp add: init_def)

text \<open>
  Claim C7, as stated: a name is accepted (the parse request is issued) exactly when it holds
  exactly one separator. It fails at \<^verbatim>\<open>a/b/c\<close>, which holds two and is accepted.
\<close>

theorem two_separators_accepted:
  "\<not> ((calls (snd (start_repo_parsing quiet_world ''a/b/c'' ''main'' init)) \<noteq> [])
        = (count_list ''a/b/c'' (CHR ''/'') = 1))"
  by (simp add: start_repo_parsing_calls init_def)

text \<open>
  Claim C7, amended: \<^verbatim>\<open>start_repo_parsing\<close> issues the parse request, and only that request,
  exactly when the name holds at least one separator; with no separator it issues nothing.
\<close>

theorem start_repo_parsing_accepts_iff:
  "(calls (snd (start_repo_parsing w repo_name branch_name s))
      = calls s @ [parse_request repo_name branch_name]) = (CHR ''/'' \<in> set repo_name)
   \<and> (calls (snd (start_repo_parsing w repo_name branch_name s)) = calls s)
      = (CHR ''/'' \<notin> set repo_name)"
  by (simp add: start_repo_parsing_calls)

theorem start_repo_parsing_accepts_iff_witness:
  "calls (snd (start_repo_parsing quiet_world ''a/b/c'' ''main'' init)) = [parse_request ''a/b/c'' ''main'']
   \<and> calls (snd (start_repo_parsing quiet_world ''owner/repo'' ''main'' init)) = [parse_request ''owner/repo'' ''main'']
   \<and> calls (snd (start_repo_parsing quiet_world ''/'' ''main'' init)) = [parse_request ''/'' ''main'']
   \<and> calls (snd (start_repo_parsing quiet_world ''ownerrepo'' ''main'' init)) = []"
  using start_repo_parsing_accepts_iff [of quiet_world "''a/b/c''" "''main''" init]
    start_repo_parsing_accepts_iff [of quiet_world "''owner/repo''" "''main''" init]
    start_repo_parsing_accepts_iff [of quiet_world "''/''" "''main''" init]
    start_repo_parsing_accepts_iff [of quiet_world "''ownerrepo''" "''main''" init]
  by (simp add: init_def)

section \<open>Polling for readiness\<close>

text \<open>
  Claim C3. When the first two fetches answer \<^verbatim>\<open>queued\<close> and the third \<^verbatim>\<open>ready\<close>, the poll
  interval is 0 and the two checks of the deadline find no more than the default 300 seconds
  elapsed, \<^verbatim>\<open>get_parsing_status\<close> with \<^verbatim>\<open>wait_for_ready\<close> true issues exactly three status
  requests and returns the record of the third, whose status is \<^verbatim>\<open>ready\<close>.
\<close>

theorem polling_three_fetches:
  assumes "remote w 0 = Returns (PyDict d0)" "dict_get d0 ''status'' = PyStr ''queued''"
    and "remote w 1 = Returns (PyDict d1)" "dict_get d1 ''status'' = PyStr ''queued''"
    and "remote w 2 = Returns (PyDict d2)" "dict_get d2 ''status'' = PyStr ''ready''"
    and "clock w 1 - clock w 0 \<le> 300" "clock w 2 - clock w 0 \<le> 300"
  shows "get_parsing_status w project_id True 300 0 init =
           Some (Inr (PyDict d2),
                 \<lparr>calls = [status_request project_id, status_request project_id, status_request project_id],
                  sleeps = [0, 0], reads = 3\<rparr>)"
proof -
  let ?g = "status_request project_id"
  let ?s0 = "\<lparr>calls = [], sleeps = [], reads = Suc 0\<rparr>"
  let ?s1 = "\<lparr>calls = [?g], sleeps = [0], reads = 2\<rparr>"
  let ?s2 = "\<lparr>calls = [?g, ?g], sleeps = [0, 0], reads = 3\<rparr>"
  let ?s3 = "\<lparr>calls = [?g, ?g, ?g], sleeps = [0, 0], reads = 3\<rparr>"
  have r0: "loop_round w project_id True 300 0 (clock w 0) ?s0 = Inr ?s1"
    using assms by (simp add: loop_round_def Let_def)
  have r1: "loop_round w project_id True 300 0 (clock w 0) ?s1 = Inr ?s2"
    using assms by (simp add: loop_round_def Let_def)
  have r2: "loop_round w project_id True 300 0 (clock w 0) ?s2 = Inl (Inr (PyDict d2), ?s3)"
    using assms by (simp add: loop_round_def Let_def numeral_2_eq_2)
  have l2: "get_parsing_status_loop w project_id True 300 0 (clock w 0) ?s2 = Some (Inr (PyDict d2), ?s3)"
    by (subst loop_unfold) (simp only: r2 sum.case)
  have l1: "get_parsing_status_loop w project_id True 300 0 (clock w 0) ?s1 = Some (Inr (PyDict d2), ?s3)"
    by (subst loop_unfold) (simp only: r1 l2 sum.case)
  have l0: "get_parsing_status_loop w project_id True 300 0 (clock w 0) ?s0 = Some (Inr (PyDict d2), ?s3)"
    by (subst loop_unfold) (simp only: r0 l1 sum.case)
  show ?thesis
    by (simp add: get_parsing_status_unfold init_def l0)
qed

theorem polling_three_fetches_witness:
  "get_parsing_status queued_then_ready_world (PyStr ''p'') True 300 0 init =
           Some (Inr (PyDict [(''status'', PyStr ''ready'')]),
                 \<lparr>calls = [status_request (PyStr ''p''), status_request (PyStr ''p''), status_request (PyStr ''p'')],
                  sleeps = [0, 0], reads = 3\<rparr>)"
  by (rule polling_three_fetches [where ?d0.0 = "[(''status'', PyStr ''queued'')]" and ?d1.0 = "[(''status'', PyStr ''queued'')]"])
     (simp_all add: queued_then_ready_world_def dict_get_def)

text \<open>
  Claim C4, as stated: with every fetch answering \<^verbatim>\<open>queued\<close> and a timeout of 0, the wait
  fails at the first check. The check is \<^verbatim>\<open>time.time() - start_time > timeout\<close>, a strict
  comparison: when the reading after the first fetch equals the reading at the start, the
  first check passes, the loop sleeps and fetches again, and the timeout is raised at the
  second check.
\<close>

theorem timeout_zero_second_check:
  "get_parsing_status stalled_world (PyStr ''p'') True 0 10 init =
           Some (Inl (TimeoutError (timeout_message (PyStr ''p'') 0)),
                 \<lparr>calls = [status_request (PyStr ''p''), status_request (PyStr ''p'')], sleeps = [10], reads = 3\<rparr>)"
proof -
  let ?g = "status_request (PyStr ''p'')"
  let ?s0 = "\<lparr>calls = [], sleeps = [], reads = Suc 0\<rparr>"
  let ?s1 = "\<lparr>calls = [?g], sleeps = [10], reads = 2\<rparr>"
  let ?s2 = "\<lparr>calls = [?g, ?g], sleeps = [10], reads = 3\<rparr>"
  let ?e = "Inl (TimeoutError (timeout_message (PyStr ''p'') 0))"
  have r0: "loop_round stalled_world (PyStr ''p'') True 0 10 (clock stalled_world 0) ?s0 = Inr ?s1"
    by (simp add: loop_round_def Let_def stalled_world_def dict_get_def)
  have r1: "loop_round stalled_world (PyStr ''p'') True 0 10 (clock stalled_world 0) ?s1 = Inl (?e, ?s2)"
    by (simp add: loop_round_def Let_def stalled_world_def dict_get_def)
  have l1: "get_parsing_status_loop stalled_world (PyStr ''p'') True 0 10 (clock stalled_world 0) ?s1 = Some (?e, ?s2)"
    by (subst loop_unfold) (simp only: r1 sum.case)
  have l0: "get_parsing_status_loop stalled_world (PyStr ''p'') True 0 10 (clock stalled_world 0) ?s0 = Some (?e, ?s2)"
    by (subst loop_unfold) (simp only: r0 l1 sum.case)
  show ?thesis
    by (simp add: get_parsing_status_unfold init_def l0)
qed

text \<open>
  Claim C4, amended: with the first fetch answering \<^verbatim>\<open>queued\<close>, a timeout of 0, and a reading
  of the clock after the first fetch that is strictly later than the reading at the start,
  the wait fails with the timeout error at the first check: one request, no sleep.
\<close>

theorem timeout_zero_first_check:
  assumes "remote w 0 = Returns (PyDict d)" "dict_get d ''status'' = PyStr ''queued''"
    and "clock w 0 < clock w 1"
  shows "get_parsing_status w project_id True 0 poll_interval init =
           Some (Inl (TimeoutError (timeout_message project_id 0)),
                 \<lparr>calls = [status_request project_id], sleeps = [], reads = 2\<rparr>)"
  unfolding get_parsing_status_unfold init_def using assms
  by (subst loop_unfold) (simp add: loop_round_def Let_def)

theorem timeout_zero_first_check_witness:
  "get_parsing_status ticking_world (PyStr ''p'') True 0 10 init =
           Some (Inl (TimeoutError (timeout_message (PyStr ''p'') 0)),
                 \<lparr>calls = [status_request (PyStr ''p'')], sleeps = [], reads = 2\<rparr>)"
  by (rule timeout_zero_first_check [where d = "[(''status'', PyStr ''queued'')]"])
     (simp_all add: ticking_world_def dict_get_def)

section \<open>Asking a ready project\<close>

text \<open>
  Claim C2. When the remote answers, in this order, \<^verbatim>\<open>{"status": "ready"}\<close>,
  \<^verbatim>\<open>{"conversation_id": "c1"}\<close> and \<^verbatim>\<open>{"message": "42"}\<close>, \<^verbatim>\<open>ask_parsed_repo\<close> issues exactly
  three requests, in the order status, create conversation, send message, and returns the
  text of the message record, which contains \<^verbatim>\<open>42\<close>.
\<close>

theorem ask_ready_project:
  assumes "remote w 0 = Returns (PyDict [(''status'', PyStr ''ready'')])"
    and "remote w 1 = Returns (PyDict [(''conversation_id'', PyStr ''c1'')])"
    and "remote w 2 = Returns (PyDict [(''message'', PyStr ''42'')])"
  shows "ask_parsed_repo w project_id query init =
           Some (Inr (''{'' @ [squote] @ ''message'' @ [squote] @ '': '' @ [squote] @ ''42'' @ [squote] @ ''}''),
                 \<lparr>calls = [status_request project_id, conversation_request project_id,
                            message_request (PyStr ''c1'') query],
                  sleeps = [], reads = 1\<rparr>)
         \<and> sublist ''42'' (''{'' @ [squote] @ ''message'' @ [squote] @ '': '' @ [squote] @ ''42'' @ [squote] @ ''}'')"
proof -
  have loop: "get_parsing_status w project_id True 600 10 init =
      Some (Inr (PyDict [(''status'', PyStr ''ready'')]), \<lparr>calls = [status_request project_id], sleeps = [], reads = 1\<rparr>)"
    unfolding get_parsing_status_unfold init_def using assms
    by (subst loop_unfold) (simp add: loop_round_def Let_def dict_get_def)
  have sub: "sublist ''42'' (''{'' @ [squote] @ ''message'' @ [squote] @ '': '' @ [squote] @ ''42'' @ [squote] @ ''}'')"
    by (simp add: sublist_Cons_right)
  have "ask_parsed_repo w project_id query init =
           Some (Inr (''{'' @ [squote] @ ''message'' @ [squote] @ '': '' @ [squote] @ ''42'' @ [squote] @ ''}''),
                 \<lparr>calls = [status_request project_id, conversation_request project_id,
                            message_request (PyStr ''c1'') query],
                  sleeps = [], reads = 1\<rparr>)"
    using assms
    by (simp add: ask_parsed_repo_def ask_parsed_repo_body_def loop create_conversation_def
        send_message_def make_request_eq dict_get_def conversation_request_def message_request_def
        repr_str_def escape_char_def numeral_2_eq_2 Let_def)
  with sub show ?thesis by simp
qed

theorem ask_ready_project_witness:
  "ask_parsed_repo ready_world (PyStr ''p'') ''What does main do?'' init =
           Some (Inr (''{'' @ [squote] @ ''message'' @ [squote] @ '': '' @ [squote] @ ''42'' @ [squote] @ ''}''),
                 \<lparr>calls = [status_request (PyStr ''p''), conversation_request (PyStr ''p''),
                            message_request (PyStr ''c1'') ''What does main do?''],
                  sleeps = [], reads = 1\<rparr>)"
  using ask_ready_project [of ready_world "PyStr ''p''" "''What does main do?''"]
  by (simp add: ready_world_def)

section \<open>Asking a project that does not become ready\<close>



section \<open>What a successful wait returns\<close>

text \<open>
  Claim C10. Whenever \<^verbatim>\<open>get_parsing_status\<close> with \<^verbatim>\<open>wait_for_ready\<close> true returns normally, the
  status of the record it returns is \<^verbatim>\<open>ready\<close>. So the not-ready branch of
  \<^verbatim>\<open>ask_parsed_repo\<close> is never taken: the body with the branch deleted is the same function.
\<close>

theorem wait_returns_ready:
  "(get_parsing_status w project_id True timeout poll_interval s = Some (Inr parsing_status, s')
      \<longrightarrow> py_get parsing_status ''status'' = Inr (PyStr ''ready''))
   \<and> ask_parsed_repo_body w project_id query s = ask_parsed_repo_body_pruned w project_id query s"
proof
  show "get_parsing_status w project_id True timeout poll_interval s = Some (Inr parsing_status, s')
      \<longrightarrow> py_get parsing_status ''status'' = Inr (PyStr ''ready'')"
    by (auto simp: get_parsing_status_unfold dest: loop_ready)
  show "ask_parsed_repo_body w project_id query s = ask_parsed_repo_body_pruned w project_id query s"
  proof (cases "get_parsing_status w project_id True 600 10 s")
    case None
    then show ?thesis by (simp add: ask_parsed_repo_body_def ask_parsed_repo_body_pruned_def)
  next
    case (Some y)
    obtain r s1 where y: "y = (r, s1)" by (cases y)
    show ?thesis
    proof (cases r)
      case (Inl e)
      with Some y show ?thesis by (simp add: ask_parsed_repo_body_def ask_parsed_repo_body_pruned_def)
    next
      case (Inr j)
      with Some y have "py_get j ''status'' = Inr (PyStr ''ready'')"
        by (auto simp: get_parsing_status_unfold dest: loop_ready)
      with Some y Inr show ?thesis
        by (simp add: ask_parsed_repo_body_def ask_parsed_repo_body_pruned_def)
    qed
  qed
qed

theorem wait_returns_ready_witness:
  "get_parsing_status ready_world (PyStr ''p'') True 600 10 init
     = Some (Inr (PyDict [(''status'', PyStr ''ready'')]),
             \<lparr>calls = [status_request (PyStr ''p'')], sleeps = [], reads = 1\<rparr>)
   \<and> py_get (PyDict [(''status'', PyStr ''ready'')]) ''status'' = Inr (PyStr ''ready'')"
proof -
  have run: "get_parsing_status ready_world (PyStr ''p'') True 600 10 init
     = Some (Inr (PyDict [(''status'', PyStr ''ready'')]),
             \<lparr>calls = [status_request (PyStr ''p'')], sleeps = [], reads = 1\<rparr>)"
    unfolding get_parsing_status_unfold init_def
    by (subst loop_unfold) (simp add: loop_round_def Let_def ready_world_def dict_get_def)
  with wait_returns_ready [of ready_world "PyStr ''p''" 600 10 init "PyDict [(''status'', PyStr ''ready'')]"
      "\<lparr>calls = [status_request (PyStr ''p'')], sleeps = [], reads = 1\<rparr>" "''q''"]
  show ?thesis by blast
qed

section \<open>A parse result without a project id\<close>

text \<open>
  Claim C9, as stated: for every parse response lacking \<^verbatim>\<open>project_id\<close>, both tools return a
  failure string that mentions \<^verbatim>\<open>project_id\<close>. A parse response that is not a record, here the
  empty JSON array, lacks the field too; \<^verbatim>\<open>parse_result.get\<close> then raises \<^verbatim>\<open>AttributeError\<close>, and
  the string the handler returns does not mention \<^verbatim>\<open>project_id\<close>.
\<close>

theorem parse_answer_not_a_record:
  "analyze_repository list_world ''owner/repo'' init =
     Some (Inr (''Failed to analyze repository: '' @ [squote] @ ''list'' @ [squote]
                @ '' object has no attribute '' @ [squote] @ ''get'' @ [squote]),
           \<lparr>calls = [parse_request ''owner/repo'' ''main''], sleeps = [], reads = 0\<rparr>)
   \<and> \<not> sublist ''project_id''
         (''Failed to analyze repository: '' @ [squote] @ ''list'' @ [squote]
          @ '' object has no attribute '' @ [squote] @ ''get'' @ [squote])"
proof
  have "analyze_repository_body list_world ''owner/repo'' init =
      Some (Inl (AttributeError ([squote] @ ''list'' @ [squote]
                @ '' object has no attribute '' @ [squote] @ ''get'' @ [squote])),
            \<lparr>calls = [parse_request ''owner/repo'' ''main''], sleeps = [], reads = 0\<rparr>)"
    by (simp add: analyze_repository_body_eq after_parse_def list_world_def init_def)
  from analyze_repository_raised [OF this]
  show "analyze_repository list_world ''owner/repo'' init =
     Some (Inr (''Failed to analyze repository: '' @ [squote] @ ''list'' @ [squote]
                @ '' object has no attribute '' @ [squote] @ ''get'' @ [squote]),
           \<lparr>calls = [parse_request ''owner/repo'' ''main''], sleeps = [], reads = 0\<rparr>)"
    by simp
  show "\<not> sublist ''project_id''
         (''Failed to analyze repository: '' @ [squote] @ ''list'' @ [squote]
          @ '' object has no attribute '' @ [squote] @ ''get'' @ [squote])"
    by (simp add: sublist_Cons_right)
qed

text \<open>
  Claim C9, amended: \<^verbatim>\<open>analyze_repository\<close> and \<^verbatim>\<open>get_repository_trends\<close> issue the parse request
  first, and no other request in any run. When the parse response is a record whose
  \<^verbatim>\<open>project_id\<close> is missing or empty (falsy), each returns the failure string \<^verbatim>\<open>Failed to get
  project_id when starting parsing for ...\<close>, which mentions \<^verbatim>\<open>project_id\<close>. When the parse
  response is not a record, each returns its generic failure string with the text of the
  \<^verbatim>\<open>AttributeError\<close>.
\<close>

theorem parse_without_project_id:
  "(\<exists>out. analyze_repository w repo_name s =
       Some (Inr out, s\<lparr>calls := calls s @ [parse_request repo_name ''main'']\<rparr>))
   \<and> (\<exists>out. get_repository_trends w repo_name s =
       Some (Inr out, s\<lparr>calls := calls s @ [parse_request repo_name ''main'']\<rparr>))
   \<and> (remote w (length (calls s)) = Returns (PyDict d) \<and> \<not> truthy (dict_get d ''project_id'')
      \<longrightarrow> analyze_repository w repo_name s =
            Some (Inr (no_project_id_message repo_name (PyDict d)),
                  s\<lparr>calls := calls s @ [parse_request repo_name ''main'']\<rparr>)
        \<and> get_repository_trends w repo_name s =
            Some (Inr (no_project_id_message repo_name (PyDict d)),
                  s\<lparr>calls := calls s @ [parse_request repo_name ''main'']\<rparr>)
        \<and> sublist ''project_id'' (no_project_id_message repo_name (PyDict d)))
   \<and> (remote w (length (calls s)) = Returns v \<and> \<not> is_dict v
      \<longrightarrow> analyze_repository w repo_name s =
            Some (Inr (''Failed to analyze repository: '' @ no_get_message v),
                  s\<lparr>calls := calls s @ [parse_request repo_name ''main'']\<rparr>)
        \<and> get_repository_trends w repo_name s =
            Some (Inr (''Failed to get repository trends: '' @ no_get_message v),
                  s\<lparr>calls := calls s @ [parse_request repo_name ''main'']\<rparr>))"
proof (intro conjI impI)
  show "\<exists>out. analyze_repository w repo_name s =
       Some (Inr out, s\<lparr>calls := calls s @ [parse_request repo_name ''main'']\<rparr>)"
    by (rule analyze_repository_total)
  show "\<exists>out. get_repository_trends w repo_name s =
       Some (Inr out, s\<lparr>calls := calls s @ [parse_request repo_name ''main'']\<rparr>)"
    by (rule get_repository_trends_total)
next
  assume "remote w (length (calls s)) = Returns (PyDict d) \<and> \<not> truthy (dict_get d ''project_id'')"
  then have ap: "after_parse w repo_name s = Inr (no_project_id_message repo_name (PyDict d))"
    by (simp add: after_parse_def)
  from analyze_repository_returned [OF analyze_repository_body_eq [of w repo_name s, unfolded ap]]
  show "analyze_repository w repo_name s =
            Some (Inr (no_project_id_message repo_name (PyDict d)),
                  s\<lparr>calls := calls s @ [parse_request repo_name ''main'']\<rparr>)" .
  from get_repository_trends_returned [OF get_repository_trends_body_eq [of w repo_name s, unfolded ap]]
  show "get_repository_trends w repo_name s =
            Some (Inr (no_project_id_message repo_name (PyDict d)),
                  s\<lparr>calls := calls s @ [parse_request repo_name ''main'']\<rparr>)" .
  show "sublist ''project_id'' (no_project_id_message repo_name (PyDict d))"
    by (rule no_project_id_message_mentions)
next
  assume "remote w (length (calls s)) = Returns v \<and> \<not> is_dict v"
  then have ap: "after_parse w repo_name s = Inl (AttributeError (no_get_message v))"
    by (simp add: after_parse_def py_get_not_dict)
  from analyze_repository_raised [OF analyze_repository_body_eq [of w repo_name s, unfolded ap]]
  show "analyze_repository w repo_name s =
            Some (Inr (''Failed to analyze repository: '' @ no_get_message v),
                  s\<lparr>calls := calls s @ [parse_request repo_name ''main'']\<rparr>)"
    by simp
  from get_repository_trends_raised [OF get_repository_trends_body_eq [of w repo_name s, unfolded ap]]
  show "get_repository_trends w repo_name s =
            Some (Inr (''Failed to get repository trends: '' @ no_get_message v),
                  s\<lparr>calls := calls s @ [parse_request repo_name ''main'']\<rparr>)"
    by simp
qed

theorem parse_without_project_id_witness:
  "remote quiet_world (length (calls init)) = Returns (PyDict []) \<and> \<not> truthy (dict_get [] ''project_id'')
   \<and> analyze_repository quiet_world ''owner/repo'' init =
        Some (Inr ''Failed to get project_id when starting parsing for owner/repo. Response: {}'',
              \<lparr>calls = [parse_request ''owner/repo'' ''main''], sleeps = [], reads = 0\<rparr>)
   \<and> get_repository_trends quiet_world ''owner/repo'' init =
        Some (Inr ''Failed to get project_id when starting parsing for owner/repo. Response: {}'',
              \<lparr>calls = [parse_request ''owner/repo'' ''main''], sleeps = [], reads = 0\<rparr>)
   \<and> remote list_world (length (calls init)) = Returns (PyList []) \<and> \<not> is_dict (PyList [])
   \<and> get_repository_trends list_world ''owner/repo'' init =
        Some (Inr (''Failed to get repository trends: '' @ [squote] @ ''list'' @ [squote]
                   @ '' object has no attribute '' @ [squote] @ ''get'' @ [squote]),
              \<lparr>calls = [parse_request ''owner/repo'' ''main''], sleeps = [], reads = 0\<rparr>)"
proof -
  have h1: "remote quiet_world (length (calls init)) = Returns (PyDict []) \<and> \<not> truthy (dict_get [] ''project_id'')"
    by (simp add: quiet_world_def init_def dict_get_def)
  have h2: "remote list_world (length (calls init)) = Returns (PyList []) \<and> \<not> is_dict (PyList [])"
    by (simp add: list_world_def init_def)
  from parse_without_project_id [of quiet_world "''owner/repo''" init "[]"] h1
    parse_without_project_id [of list_world "''owner/repo''" init _ "PyList []"] h2
  show ?thesis
    by (simp add: no_project_id_message_def no_get_message_def init_def)
qed

section \<open>Network errors\<close>

text \<open>
  Claim C6, as stated: the text of a network error, with the marker \<^verbatim>\<open>Network error - \<close>,
  appears in what every tool returns. \<^verbatim>\<open>ask_parsed_repo\<close> has no handler for
  \<^verbatim>\<open>RequestException\<close>; its handler for \<^verbatim>\<open>Exception\<close> returns the text without the marker.
\<close>

theorem ask_network_error_unmarked:
  "ask_parsed_repo failing_world (PyStr ''p'') ''q'' init =
     Some (Inr ''Failed to query repository: boom'',
           \<lparr>calls = [status_request (PyStr ''p'')], sleeps = [], reads = 1\<rparr>)
   \<and> \<not> sublist ''Network error - '' ''Failed to query repository: boom''"
proof
  show "ask_parsed_repo failing_world (PyStr ''p'') ''q'' init =
     Some (Inr ''Failed to query repository: boom'',
           \<lparr>calls = [status_request (PyStr ''p'')], sleeps = [], reads = 1\<rparr>)"
    unfolding ask_parsed_repo_def ask_parsed_repo_body_def get_parsing_status_unfold init_def
    by (subst loop_unfold) (simp add: loop_round_def Let_def failing_world_def)
  show "\<not> sublist ''Network error - '' ''Failed to query repository: boom''"
    by (simp add: sublist_Cons_right)
qed

text \<open>
  Claim C6, amended: when a request that a tool issues fails with a network error, the tool
  returns a string that ends with the text \<^verbatim>\<open>str(e)\<close> of the error. The marker
  \<^verbatim>\<open>Network error - \<close> precedes it in \<^verbatim>\<open>start_repo_parsing\<close> and \<^verbatim>\<open>check_repo_parsing_status\<close>;
  \<^verbatim>\<open>ask_parsed_repo\<close>, \<^verbatim>\<open>analyze_repository\<close> and \<^verbatim>\<open>get_repository_trends\<close> put \<^verbatim>\<open>Failed to query
  repository: \<close>, \<^verbatim>\<open>Failed to analyze repository: \<close> and \<^verbatim>\<open>Failed to get repository trends: \<close>
  before it, without the marker.

  The first request of a run has the index \<open>length (calls s)\<close>; it is the only request of
  four of the tools. \<^verbatim>\<open>ask_parsed_repo\<close> issues several: when the request of index \<open>n\<close> is due
  to fail, the run returns after at most \<open>n + 1\<close> requests, and when it has issued that
  request (\<open>n < length (calls s')\<close>) it returns the text of the error.
\<close>

theorem network_error_text_surfaces:
  "(CHR ''/'' \<in> set repo_name \<and> remote w (length (calls s)) = Raises (RequestException m)
      \<longrightarrow> fst (start_repo_parsing w repo_name branch_name s)
            = Inr (''Failed to parse repository: Network error - '' @ m))
   \<and> (project_id \<noteq> [] \<and> remote w (length (calls s)) = Raises (RequestException m)
      \<longrightarrow> (\<exists>s'. check_repo_parsing_status w project_id s
            = Some (Inr (''Failed to get parsing status: Network error - '' @ m), s')))
   \<and> (remote w n = Raises (RequestException m) \<and> length (calls s) \<le> n
      \<longrightarrow> (\<exists>out s'. ask_parsed_repo w pid query s = Some (Inr out, s')
             \<and> length (calls s') \<le> Suc n
             \<and> (n < length (calls s') \<longrightarrow> out = ''Failed to query repository: '' @ m)))
   \<and> (remote w (length (calls s)) = Raises (RequestException m)
      \<longrightarrow> analyze_repository w repo_name s =
            Some (Inr (''Failed to analyze repository: '' @ m),
                  s\<lparr>calls := calls s @ [parse_request repo_name ''main'']\<rparr>)
        \<and> get_repository_trends w repo_name s =
            Some (Inr (''Failed to get repository trends: '' @ m),
                  s\<lparr>calls := calls s @ [parse_request repo_name ''main'']\<rparr>))"
proof (intro conjI impI)
  assume "CHR ''/'' \<in> set repo_name \<and> remote w (length (calls s)) = Raises (RequestException m)"
  then show "fst (start_repo_parsing w repo_name branch_name s)
            = Inr (''Failed to parse repository: Network error - '' @ m)"
    by (auto simp: start_repo_parsing_def start_repo_parsing_body_def parse_repository_eq)
next
  assume "project_id \<noteq> [] \<and> remote w (length (calls s)) = Raises (RequestException m)"
  then show "\<exists>s'. check_repo_parsing_status w project_id s
            = Some (Inr (''Failed to get parsing status: Network error - '' @ m), s')"
    by (simp add: check_repo_parsing_status_def check_status_eq loop_round_def Let_def)
next
  assume a: "remote w n = Raises (RequestException m) \<and> length (calls s) \<le> n"
  then obtain out s' where run: "ask_parsed_repo w pid query s = Some (Inr out, s')"
    and len: "length (calls s') \<le> Suc n"
    using ask_bounded [of w n "RequestException m" s pid query] by blast
  have "out = ''Failed to query repository: '' @ m" if "n < length (calls s')"
  proof -
    from that len have "length (calls s') - 1 = n" by simp
    with a ask_last_raises [OF run, of m] show ?thesis by simp
  qed
  with run len show "\<exists>out s'. ask_parsed_repo w pid query s = Some (Inr out, s')
             \<and> length (calls s') \<le> Suc n
             \<and> (n < length (calls s') \<longrightarrow> out = ''Failed to query repository: '' @ m)"
    by blast
next
  assume "remote w (length (calls s)) = Raises (RequestException m)"
  then have ap: "after_parse w repo_name s = Inl (RequestException m)"
    by (simp add: after_parse_def)
  from analyze_repository_raised [OF analyze_repository_body_eq [of w repo_name s, unfolded ap]]
  show "analyze_repository w repo_name s =
            Some (Inr (''Failed to analyze repository: '' @ m),
                  s\<lparr>calls := calls s @ [parse_request repo_name ''main'']\<rparr>)"
    by simp
  from get_repository_trends_raised [OF get_repository_trends_body_eq [of w repo_name s, unfolded ap]]
  show "get_repository_trends w repo_name s =
            Some (Inr (''Failed to get repository trends: '' @ m),
                  s\<lparr>calls := calls s @ [parse_request repo_name ''main'']\<rparr>)"
    by simp
qed

theorem network_error_text_surfaces_witness:
  "fst (start_repo_parsing failing_world ''owner/repo'' ''main'' init)
     = Inr ''Failed to parse repository: Network error - boom''
   \<and> (\<exists>s'. check_repo_parsing_status failing_world ''p'' init
         = Some (Inr ''Failed to get parsing status: Network error - boom'', s'))
   \<and> analyze_repository failing_world ''owner/repo'' init =
        Some (Inr ''Failed to analyze repository: boom'',
              \<lparr>calls = [parse_request ''owner/repo'' ''main''], sleeps = [], reads = 0\<rparr>)
   \<and> get_repository_trends failing_world ''owner/repo'' init =
        Some (Inr ''Failed to get repository trends: boom'',
              \<lparr>calls = [parse_request ''owner/repo'' ''main''], sleeps = [], reads = 0\<rparr>)
   \<and> remote conversation_fails_world 1 = Raises (RequestException ''boom'')
   \<and> ask_parsed_repo conversation_fails_world (PyStr ''p'') ''q'' init =
        Some (Inr ''Failed to query repository: boom'',
              \<lparr>calls = [status_request (PyStr ''p''), conversation_request (PyStr ''p'')],
               sleeps = [], reads = 1\<rparr>)"
proof -
  let ?S = "\<lparr>calls = [status_request (PyStr ''p''), conversation_request (PyStr ''p'')],
               sleeps = [], reads = 1\<rparr>"
  have fails: "remote conversation_fails_world 1 = Raises (RequestException ''boom'')"
    by (simp add: conversation_fails_world_def)
  have wait: "get_parsing_status conversation_fails_world (PyStr ''p'') True 600 10 init =
      Some (Inr (PyDict [(''status'', PyStr ''ready'')]),
            \<lparr>calls = [status_request (PyStr ''p'')], sleeps = [], reads = 1\<rparr>)"
    unfolding get_parsing_status_unfold init_def
    by (subst loop_unfold) (simp add: loop_round_def Let_def conversation_fails_world_def dict_get_def)
  have "ask_parsed_repo_body conversation_fails_world (PyStr ''p'') ''q'' init
          = Some (Inl (RequestException ''boom''), ?S)"
    using fails by (simp add: ask_parsed_repo_body_def wait create_conversation_eq dict_get_def)
  from ask_handlers [OF this] obtain out0 where
    run: "ask_parsed_repo conversation_fails_world (PyStr ''p'') ''q'' init = Some (Inr out0, ?S)" ..
  from network_error_text_surfaces [where w = conversation_fails_world and n = 1 and s = init
      and m = "''boom''" and pid = "PyStr ''p''" and query = "''q''"] fails run
  have "out0 = ''Failed to query repository: boom''"
    by (simp add: init_def)
  with run have ask: "ask_parsed_repo conversation_fails_world (PyStr ''p'') ''q'' init =
        Some (Inr ''Failed to query repository: boom'', ?S)" by simp
  from network_error_text_surfaces [where w = failing_world and repo_name = "''owner/repo''"
      and branch_name = "''main''" and s = init and m = "''boom''" and project_id = "''p''"]
  have "fst (start_repo_parsing failing_world ''owner/repo'' ''main'' init)
     = Inr ''Failed to parse repository: Network error - boom''
   \<and> (\<exists>s'. check_repo_parsing_status failing_world ''p'' init
         = Some (Inr ''Failed to get parsing status: Network error - boom'', s'))
   \<and> analyze_repository failing_world ''owner/repo'' init =
        Some (Inr ''Failed to analyze repository: boom'',
              \<lparr>calls = [parse_request ''owner/repo'' ''main''], sleeps = [], reads = 0\<rparr>)
   \<and> get_repository_trends failing_world ''owner/repo'' init =
        Some (Inr ''Failed to get repository trends: boom'',
              \<lparr>calls = [parse_request ''owner/repo'' ''main''], sleeps = [], reads = 0\<rparr>)"
    by (simp add: failing_world_def init_def)
  with fails ask show ?thesis by simp
qed

section \<open>Nothing is raised past a tool\<close>

text \<open>
  Claim C1. Whatever the remote does at each request (an answer of any shape, or an exception
  of any class under \<^verbatim>\<open>Exception\<close>) and whatever the arguments, no tool ends by raising:
  \<^verbatim>\<open>start_repo_parsing\<close>, \<^verbatim>\<open>check_repo_parsing_status\<close>, \<^verbatim>\<open>analyze_repository\<close> and
  \<^verbatim>\<open>get_repository_trends\<close> always return a string, and a run of \<^verbatim>\<open>ask_parsed_repo\<close> that ends,
  ends with a string. \<^verbatim>\<open>ask_parsed_repo\<close> waits in the polling loop, and it does end, with a
  string, when time passes on the clock (\<^const>\<open>clock_advances\<close>).
\<close>

theorem tools_return_strings:
  "(\<exists>out s'. start_repo_parsing w repo_name branch_name s = (Inr out, s'))
   \<and> (\<exists>out s'. check_repo_parsing_status w project_id s = Some (Inr out, s'))
   \<and> (\<exists>out s'. analyze_repository w repo_name s = Some (Inr out, s'))
   \<and> (\<exists>out s'. get_repository_trends w repo_name s = Some (Inr out, s'))
   \<and> (\<forall>e s'. ask_parsed_repo w pid query s \<noteq> Some (Inl e, s'))
   \<and> (clock_advances w \<longrightarrow> (\<exists>out s'. ask_parsed_repo w pid query s = Some (Inr out, s')))"
proof (intro conjI impI allI)
  show "\<exists>out s'. start_repo_parsing w repo_name branch_name s = (Inr out, s')"
    by (rule start_repo_parsing_total)
  show "\<exists>out s'. check_repo_parsing_status w project_id s = Some (Inr out, s')"
    by (rule check_repo_parsing_status_total)
  from analyze_repository_total [of w repo_name s]
  show "\<exists>out s'. analyze_repository w repo_name s = Some (Inr out, s')" by blast
  from get_repository_trends_total [of w repo_name s]
  show "\<exists>out s'. get_repository_trends w repo_name s = Some (Inr out, s')" by blast
  show "ask_parsed_repo w pid query s \<noteq> Some (Inl e, s')" for e s'
    by (rule ask_never_raises)
next
  assume "clock_advances w"
  then show "\<exists>out s'. ask_parsed_repo w pid query s = Some (Inr out, s')"
    by (rule ask_returns)
qed

theorem tools_return_strings_witness:
  "clock_advances ticking_world
   \<and> (\<exists>out s'. start_repo_parsing ticking_world ''owner/repo'' ''main'' init = (Inr out, s'))
   \<and> (\<exists>out s'. check_repo_parsing_status ticking_world ''p'' init = Some (Inr out, s'))
   \<and> (\<exists>out s'. ask_parsed_repo ticking_world (PyStr ''p'') ''q'' init = Some (Inr out, s'))
   \<and> (\<exists>out s'. analyze_repository ticking_world ''owner/repo'' init = Some (Inr out, s'))
   \<and> (\<exists>out s'. get_repository_trends ticking_world ''owner/repo'' init = Some (Inr out, s'))"
  using tools_return_strings [of ticking_world "''owner/repo''" "''main''" init "''p''" "PyStr ''p''" "''q''"]
    ticking_world_advances
  by blast

end
